theory Spec2Isabelle
  imports Main "HOL-Library.Sublist"
begin

section \<open>Strings\<close>

text \<open>
  Strings of the TypeScript source are modelled as \<^typ>\<open>string\<close> (lists of one-byte
  characters). White space is the ASCII part of what \<^verbatim>\<open>String.prototype.trim\<close> and
  the regular expression class \<^verbatim>\<open>\s\<close> accept (tab, line feed, vertical tab, form feed,
  carriage return, space); \<^verbatim>\<open>toLowerCase\<close> maps \<^verbatim>\<open>A\<close>..\<^verbatim>\<open>Z\<close> to
  \<^verbatim>\<open>a\<close>..\<^verbatim>\<open>z\<close> and leaves every other character alone.
\<close>

definition is_space :: "char \<Rightarrow> bool" where
  "is_space c = (c \<in> set [CHR 0x09, CHR 0x0A, CHR 0x0B, CHR 0x0C, CHR 0x0D, CHR 0x20])"

definition lower_char :: "char \<Rightarrow> char" where
  "lower_char c =
     (if 65 \<le> (of_char c :: int) \<and> (of_char c :: int) \<le> 90
      then char_of ((of_char c :: int) + 32) else c)"

definition toLowerCase :: "string \<Rightarrow> string" where
  "toLowerCase s = map lower_char s"

definition trim :: "string \<Rightarrow> string" where
  "trim s = rev (dropWhile is_space (rev (dropWhile is_space s)))"

text \<open>\<^verbatim>\<open>s.replace(/\s+/g, " ")\<close>: every maximal run of white space becomes one space.\<close>

function collapse_ws :: "string \<Rightarrow> string" where
  "collapse_ws [] = []"
| "collapse_ws (c # cs) =
     (if is_space c then CHR 0x20 # collapse_ws (dropWhile is_space cs)
      else c # collapse_ws cs)"
  by pat_completeness auto
termination
  by (relation "measure length") (auto simp: le_imp_less_Suc length_dropWhile_le)

text \<open>\<^verbatim>\<open>s.includes(p)\<close> and \<^verbatim>\<open>/p/.test(s)\<close> for a literal pattern \<open>p\<close>.\<close>

fun starts_with :: "string \<Rightarrow> string \<Rightarrow> bool" where
  "starts_with s [] = True"
| "starts_with [] (p # ps) = False"
| "starts_with (c # cs) (p # ps) = (c = p \<and> starts_with cs ps)"

fun str_includes :: "string \<Rightarrow> string \<Rightarrow> bool" where
  "str_includes [] p = starts_with [] p"
| "str_includes (c # cs) p = (starts_with (c # cs) p \<or> str_includes cs p)"

text \<open>\<^verbatim>\<open>String(n)\<close> for an integer \<open>n\<close>; \<open>show_digits\<close> prints one that is not negative.\<close>

definition digit_char :: "int \<Rightarrow> char" where
  "digit_char d = char_of (48 + d)"

function show_digits :: "int \<Rightarrow> string" where
  "show_digits n =
     (if n < 10 then [digit_char n] else show_digits (n div 10) @ [digit_char (n mod 10)])"
  by pat_completeness auto
termination
  by (relation "measure nat") auto

definition show_int :: "int \<Rightarrow> string" where
  "show_int i = (if i < 0 then CHR ''-'' # show_digits (- i) else show_digits i)"

section \<open>Guardrail budget (guardrails.ts)\<close>

text \<open>
  \<^verbatim>\<open>ExecutionBudget\<close>. The \<^verbatim>\<open>Set<string>\<close> of fingerprints is a list in insertion
  order, the order \<^verbatim>\<open>Array.from\<close> reads it in; \<open>set_has\<close> and \<open>set_add\<close> are the
  methods \<^verbatim>\<open>has\<close> and \<^verbatim>\<open>add\<close>. Numbers are integers.
\<close>

record ExecutionBudget =
  runId :: string
  depth :: int
  maxDepth :: int
  rootStartedAtMs :: int
  deadlineAtMs :: int
  remainingTokens :: int
  fingerprints :: "string list"
  canSpawnChildren :: bool

text \<open>\<^verbatim>\<open>ChildProcessBudget\<close>; its fields carry the prefix \<open>c_\<close> where the name is shared.\<close>

record ChildProcessBudget =
  c_runId :: string
  nextDepth :: int
  c_maxDepth :: int
  c_rootStartedAtMs :: int
  c_deadlineAtMs :: int
  c_remainingTokens :: int
  c_fingerprints :: "string list"
  c_canSpawnChildren :: bool

definition set_has :: "string list \<Rightarrow> string \<Rightarrow> bool" where
  "set_has xs x = (x \<in> set xs)"

definition set_add :: "string list \<Rightarrow> string \<Rightarrow> string list" where
  "set_add xs x = (if x \<in> set xs then xs else xs @ [x])"

definition normalizeTask :: "string \<Rightarrow> string" where
  "normalizeTask task = toLowerCase (trim (collapse_ws task))"

definition makeFingerprint :: "string \<Rightarrow> string \<Rightarrow> string" where
  "makeFingerprint agent task = toLowerCase (trim agent) @ ''::'' @ normalizeTask task"

text \<open>The two errors \<^verbatim>\<open>reserveChildBudget\<close> throws, with the values their messages print.\<close>

datatype reserve_error =
    LoopBlocked string
  | BudgetExceeded int int

definition reserve_error_message :: "reserve_error \<Rightarrow> string" where
  "reserve_error_message e =
     (case e of
        LoopBlocked agentName \<Rightarrow>
          ''Blocked recursive loop for '' @ agentName @ '': duplicate delegated task fingerprint.''
      | BudgetExceeded reserveTotal remaining \<Rightarrow>
          ''Subagent budget exceeded: requires '' @ show_int reserveTotal
            @ '' token(s), only '' @ show_int remaining @ '' remaining.'')"

text \<open>
  \<^verbatim>\<open>reserveChildBudget\<close> mutates the parent budget in place: the model returns the parent
  budget after the call together with the child budget or the error thrown.
\<close>

definition reserveChildBudget ::
  "ExecutionBudget \<Rightarrow> string \<Rightarrow> string \<Rightarrow> int \<Rightarrow> bool
     \<Rightarrow> ExecutionBudget \<times> (reserve_error + ChildProcessBudget)" where
  "reserveChildBudget budget agentName task reservedDescendantTokens allowNestedFromAgent =
     (let fingerprint = makeFingerprint agentName task in
      if set_has (fingerprints budget) fingerprint then (budget, Inl (LoopBlocked agentName))
      else
        let reserveTotal = 1 + max 0 reservedDescendantTokens in
        if remainingTokens budget < reserveTotal
        then (budget, Inl (BudgetExceeded reserveTotal (remainingTokens budget)))
        else
          let budget' = budget\<lparr>remainingTokens := remainingTokens budget - reserveTotal,
                                fingerprints := set_add (fingerprints budget) fingerprint\<rparr>
          in (budget',
              Inr \<lparr>c_runId = runId budget',
                   nextDepth = depth budget' + 1,
                   c_maxDepth = maxDepth budget',
                   c_rootStartedAtMs = rootStartedAtMs budget',
                   c_deadlineAtMs = deadlineAtMs budget',
                   c_remainingTokens = max 0 reservedDescendantTokens,
                   c_fingerprints = fingerprints budget',
                   c_canSpawnChildren = allowNestedFromAgent\<rparr>))"

text \<open>
  The process environment, restricted to the eight budget variables. The fingerprints
  variable holds JSON text: it is represented by what \<^verbatim>\<open>JSON.parse\<close> makes of it,
  a syntax error or a JSON value, and \<^verbatim>\<open>JSON.stringify\<close> of a string array is the
  array value itself.
\<close>

datatype json =
    JNull
  | JBool bool
  | JNumber int
  | JString string
  | JArray "json list"
  | JObject "(string \<times> json) list"

datatype json_text = SyntaxError string | JsonDoc json

record ProcessEnv =
  PI_SUBAGENT_RUN_ID :: "string option"
  PI_SUBAGENT_DEPTH :: "string option"
  PI_SUBAGENT_MAX_DEPTH :: "string option"
  PI_SUBAGENT_ROOT_STARTED_AT :: "string option"
  PI_SUBAGENT_DEADLINE_AT :: "string option"
  PI_SUBAGENT_REMAINING_TOKENS :: "string option"
  PI_SUBAGENT_FINGERPRINTS :: "json_text option"
  PI_SUBAGENT_CAN_SPAWN_CHILDREN :: "string option"

record GuardrailDefaults =
  dflt_maxDepth :: int
  maxTotalAgents :: int
  maxWallTimeMs :: int

definition DEFAULT_GUARDRAIL_DEFAULTS :: GuardrailDefaults where
  "DEFAULT_GUARDRAIL_DEFAULTS =
     \<lparr>dflt_maxDepth = 2, maxTotalAgents = 16, maxWallTimeMs = 10 * 60 * 1000\<rparr>"

text \<open>
  \<^verbatim>\<open>Number.parseInt(value, 10)\<close>: leading white space, an optional sign, then the longest
  run of decimal digits; \<open>None\<close> is \<^verbatim>\<open>NaN\<close>.
\<close>

definition is_digit :: "char \<Rightarrow> bool" where
  "is_digit c = (48 \<le> (of_char c :: int) \<and> (of_char c :: int) \<le> 57)"

definition digits_value :: "string \<Rightarrow> int" where
  "digits_value ds = foldl (\<lambda>acc c. acc * 10 + ((of_char c :: int) - 48)) 0 ds"

definition parseInt :: "string \<Rightarrow> int option" where
  "parseInt value =
     (let s = dropWhile is_space value;
          neg = (case s of [] \<Rightarrow> False | c # _ \<Rightarrow> c = CHR ''-'');
          body = (case s of [] \<Rightarrow> []
                  | c # cs \<Rightarrow> if c = CHR ''-'' \<or> c = CHR ''+'' then cs else s);
          ds = takeWhile is_digit body
      in if ds = [] then None
         else Some (if neg then - digits_value ds else digits_value ds))"

definition parseIntegerEnv :: "string option \<Rightarrow> int \<Rightarrow> int" where
  "parseIntegerEnv value fallback =
     (case value of
        None \<Rightarrow> fallback
      | Some v \<Rightarrow>
          if v = [] then fallback
          else (case parseInt v of None \<Rightarrow> fallback | Some parsed \<Rightarrow> parsed))"

definition parseFingerprintSet :: "json_text option \<Rightarrow> string list" where
  "parseFingerprintSet value =
     (case value of
        None \<Rightarrow> []
      | Some (SyntaxError _) \<Rightarrow> []
      | Some (JsonDoc (JArray parsed)) \<Rightarrow>
          foldl (\<lambda>out item.
                   case item of
                     JString s \<Rightarrow> if length (trim s) > 0 then set_add out s else out
                   | _ \<Rightarrow> out)
                [] parsed
      | Some (JsonDoc _) \<Rightarrow> [])"

text \<open>\<open>randomRunId\<close> stands for \<^verbatim>\<open>randomBytes(8).toString("hex")\<close>.\<close>

definition initializeExecutionBudget ::
  "ProcessEnv \<Rightarrow> int \<Rightarrow> GuardrailDefaults \<Rightarrow> string \<Rightarrow> ExecutionBudget" where
  "initializeExecutionBudget env nowMs defaults randomRunId =
     (let runId' = (case PI_SUBAGENT_RUN_ID env of
                      None \<Rightarrow> randomRunId
                    | Some r \<Rightarrow> if r = [] then randomRunId else r);
          depth' = max 0 (parseIntegerEnv (PI_SUBAGENT_DEPTH env) 0);
          maxDepth' = max 0 (parseIntegerEnv (PI_SUBAGENT_MAX_DEPTH env) (dflt_maxDepth defaults));
          rootStartedAtMs' = max 0 (parseIntegerEnv (PI_SUBAGENT_ROOT_STARTED_AT env) nowMs);
          defaultDeadlineAtMs = rootStartedAtMs' + maxWallTimeMs defaults;
          deadlineAtMs' = max rootStartedAtMs'
                            (parseIntegerEnv (PI_SUBAGENT_DEADLINE_AT env) defaultDeadlineAtMs);
          remainingTokens' = max 0 (parseIntegerEnv (PI_SUBAGENT_REMAINING_TOKENS env)
                                      (maxTotalAgents defaults));
          fingerprints' = parseFingerprintSet (PI_SUBAGENT_FINGERPRINTS env);
          canSpawnChildren' = (PI_SUBAGENT_CAN_SPAWN_CHILDREN env \<noteq> Some ''0'')
      in \<lparr>runId = runId', depth = depth', maxDepth = maxDepth',
           rootStartedAtMs = rootStartedAtMs', deadlineAtMs = deadlineAtMs',
           remainingTokens = remainingTokens', fingerprints = fingerprints',
           canSpawnChildren = canSpawnChildren'\<rparr>)"

text \<open>The budget part of \<^verbatim>\<open>childEnv\<close> in \<^verbatim>\<open>runSingleAgent\<close>.\<close>

definition childEnv :: "ChildProcessBudget \<Rightarrow> ProcessEnv" where
  "childEnv childBudget =
     \<lparr>PI_SUBAGENT_RUN_ID = Some (c_runId childBudget),
      PI_SUBAGENT_DEPTH = Some (show_int (nextDepth childBudget)),
      PI_SUBAGENT_MAX_DEPTH = Some (show_int (c_maxDepth childBudget)),
      PI_SUBAGENT_ROOT_STARTED_AT = Some (show_int (c_rootStartedAtMs childBudget)),
      PI_SUBAGENT_DEADLINE_AT = Some (show_int (c_deadlineAtMs childBudget)),
      PI_SUBAGENT_REMAINING_TOKENS = Some (show_int (c_remainingTokens childBudget)),
      PI_SUBAGENT_FINGERPRINTS = Some (JsonDoc (JArray (map JString (c_fingerprints childBudget)))),
      PI_SUBAGENT_CAN_SPAWN_CHILDREN = Some (if c_canSpawnChildren childBudget then ''1'' else ''0'')\<rparr>"

text \<open>
  A run of reservations on one budget: every request is tried in turn on the budget the
  earlier ones left, and the fingerprints of the requests that went through are collected
  in order.
\<close>

fun reserve_sequence ::
  "ExecutionBudget \<Rightarrow> (string \<times> string \<times> int \<times> bool) list \<Rightarrow> ExecutionBudget \<times> string list" where
  "reserve_sequence b [] = (b, [])"
| "reserve_sequence b ((a, t, d, n) # reqs) =
     (case reserveChildBudget b a t d n of
        (b', Inl e) \<Rightarrow> reserve_sequence b' reqs
      | (b', Inr c) \<Rightarrow>
          (case reserve_sequence b' reqs of (b'', fps) \<Rightarrow> (b'', makeFingerprint a t # fps)))"

text \<open>
  The budgets of a child's subtree: the budget the child process builds from its
  environment, the same budget after any further reservation, and the budget of any
  process spawned from one of these with the child budget such a reservation returned.
\<close>

inductive in_subtree :: "ChildProcessBudget \<Rightarrow> ExecutionBudget \<Rightarrow> bool" for c where
  subtree_root: "in_subtree c (initializeExecutionBudget (childEnv c) nowMs defaults rid)"
| subtree_reserve:
    "in_subtree c x \<Longrightarrow> reserveChildBudget x a t d n = (x', r) \<Longrightarrow> in_subtree c x'"
| subtree_spawn:
    "in_subtree c x \<Longrightarrow> reserveChildBudget x a t d n = (x', Inr c')
       \<Longrightarrow> in_subtree c (initializeExecutionBudget (childEnv c') nowMs defaults rid)"

section \<open>Topology policy (policy.ts)\<close>

datatype TopologyMode = ModeSingle | ModeParallel | ModeChain

datatype TopologyPolicy = Advisory | Auto

record ExecutionTaskItem =
  agent :: string
  task :: string
  cwd :: "string option"

text \<open>\<^verbatim>\<open>ExecutionPlan\<close>; a field that is absent in the source object is \<open>None\<close>.\<close>

record ExecutionPlan =
  plan_mode :: TopologyMode
  plan_single :: "ExecutionTaskItem option"
  plan_tasks :: "ExecutionTaskItem list option"
  plan_chain :: "ExecutionTaskItem list option"
  plan_notes :: "string list"

record ExecutionPlanInput =
  requestedMode :: TopologyMode
  policy :: TopologyPolicy
  recommendedMode :: TopologyMode
  in_single :: "ExecutionTaskItem option"
  in_tasks :: "ExecutionTaskItem list option"
  in_chain :: "ExecutionTaskItem list option"

text \<open>\<^verbatim>\<open>xs ?? []\<close>.\<close>

definition or_empty :: "'a list option \<Rightarrow> 'a list" where
  "or_empty xs = (case xs of None \<Rightarrow> [] | Some ys \<Rightarrow> ys)"

text \<open>\<^verbatim>\<open>/\{previous\}/.test(task)\<close>.\<close>

definition containsPrevious :: "string \<Rightarrow> bool" where
  "containsPrevious t = str_includes t ''{previous}''"

text \<open>\<^verbatim>\<open>normalizeRequestedPlan\<close> returns a plan without notes: \<open>plan_notes\<close> is empty here.\<close>

definition normalizeRequestedPlan ::
  "TopologyMode \<Rightarrow> ExecutionTaskItem option \<Rightarrow> ExecutionTaskItem list option
     \<Rightarrow> ExecutionTaskItem list option \<Rightarrow> ExecutionPlan" where
  "normalizeRequestedPlan m single_opt tasks_opt chain_opt =
     (if m = ModeChain
      then \<lparr>plan_mode = m, plan_single = None, plan_tasks = None,
            plan_chain = Some (or_empty chain_opt), plan_notes = []\<rparr>
      else if m = ModeParallel
      then \<lparr>plan_mode = m, plan_single = None, plan_tasks = Some (or_empty tasks_opt),
            plan_chain = None, plan_notes = []\<rparr>
      else \<lparr>plan_mode = m, plan_single = single_opt, plan_tasks = None,
            plan_chain = None, plan_notes = []\<rparr>)"

definition no_safe_conversion_note :: string where
  "no_safe_conversion_note = ''auto mode: no safe topology conversion available; using requested mode''"

definition buildExecutionPlan :: "ExecutionPlanInput \<Rightarrow> ExecutionPlan" where
  "buildExecutionPlan input =
     (let normalized = normalizeRequestedPlan (requestedMode input) (in_single input)
                         (in_tasks input) (in_chain input);
          fallthrough = normalized\<lparr>plan_notes := [no_safe_conversion_note]\<rparr>
      in
      if policy input = Advisory
      then normalized\<lparr>plan_notes := [''advisory mode: requested topology kept'']\<rparr>
      else
        (case recommendedMode input of
           ModeChain \<Rightarrow>
             if plan_mode normalized = ModeChain
             then normalized\<lparr>plan_notes := [''auto mode: recommended topology already chain'']\<rparr>
             else if plan_mode normalized = ModeParallel
             then \<lparr>plan_mode = ModeChain, plan_single = None, plan_tasks = None,
                   plan_chain = Some (or_empty (plan_tasks normalized)),
                   plan_notes = [''auto mode: switched parallel -> chain for higher coupling/risk'']\<rparr>
             else if plan_mode normalized = ModeSingle
             then \<lparr>plan_mode = ModeChain, plan_single = None, plan_tasks = None,
                   plan_chain = Some (case plan_single normalized of None \<Rightarrow> [] | Some s \<Rightarrow> [s]),
                   plan_notes = [''auto mode: switched single -> chain for higher coupling/risk'']\<rparr>
             else fallthrough
         | ModeParallel \<Rightarrow>
             if plan_mode normalized = ModeParallel
             then normalized\<lparr>plan_notes := [''auto mode: recommended topology already parallel'']\<rparr>
             else if plan_mode normalized = ModeChain
             then
               (let chain = or_empty (plan_chain normalized);
                    containsPrev = list_ex (\<lambda>item. containsPrevious (task item)) chain
                in if \<not> containsPrev \<and> length chain > 1
                   then \<lparr>plan_mode = ModeParallel, plan_single = None, plan_tasks = Some chain,
                         plan_chain = None,
                         plan_notes = [''auto mode: switched chain -> parallel (no {previous} dependencies)'']\<rparr>
                   else fallthrough)
             else fallthrough
         | ModeSingle \<Rightarrow>
             if plan_mode normalized = ModeSingle
             then normalized\<lparr>plan_notes := [''auto mode: recommended topology already single'']\<rparr>
             else if plan_mode normalized = ModeParallel
                     \<and> length (or_empty (plan_tasks normalized)) = 1
             then \<lparr>plan_mode = ModeSingle,
                   plan_single = Some (hd (or_empty (plan_tasks normalized))),
                   plan_tasks = None, plan_chain = None,
                   plan_notes = [''auto mode: switched parallel -> single (single task)'']\<rparr>
             else if plan_mode normalized = ModeChain
                     \<and> length (or_empty (plan_chain normalized)) = 1
             then
               (let first = hd (or_empty (plan_chain normalized))
                in if \<not> containsPrevious (task first)
                   then \<lparr>plan_mode = ModeSingle, plan_single = Some first, plan_tasks = None,
                         plan_chain = None,
                         plan_notes = [''auto mode: switched chain -> single (single independent step)'']\<rparr>
                   else fallthrough)
             else fallthrough))"

section \<open>Execution isolation (the first part of worktree.ts)\<close>

datatype ExecutionIsolation = IsolationShared | IsolationWorktree | IsolationAuto

datatype ResolvedExecutionIsolation = Shared | Worktree

record ExecutionIsolationTaskInput =
  iso_task :: string
  iso_agent :: "string option"
  agentTools :: "string list option"

record ExecutionIsolationDecisionInput =
  requestedIsolation :: ExecutionIsolation
  iso_mode :: TopologyMode
  iso_single :: "ExecutionIsolationTaskInput option"
  iso_tasks :: "ExecutionIsolationTaskInput list option"
  iso_chain :: "ExecutionIsolationTaskInput list option"

record ExecutionIsolationDecision =
  dec_requestedIsolation :: ExecutionIsolation
  selectedIsolation :: ResolvedExecutionIsolation
  reason :: string

definition WRITE_TASK_KEYWORDS :: "string list" where
  "WRITE_TASK_KEYWORDS =
     [''edit'', ''modify'', ''update'', ''implement'', ''write'', ''create'', ''refactor'',
      ''fix'', ''delete'', ''add'', ''remove'', ''patch'', ''rename'', ''replace'', ''migrate'',
      ''apply'']"

definition READ_ONLY_TASK_KEYWORDS :: "string list" where
  "READ_ONLY_TASK_KEYWORDS =
     [''list'', ''find'', ''search'', ''inspect'', ''read'', ''analyze'', ''summarize'',
      ''explain'', ''locate'', ''show'', ''identify'', ''scan'', ''report'']"

definition DIRECT_WRITE_TOOLS :: "string list" where
  "DIRECT_WRITE_TOOLS = [''write'', ''edit'', ''bash'']"

definition extractIsolationTasks ::
  "ExecutionIsolationDecisionInput \<Rightarrow> ExecutionIsolationTaskInput list" where
  "extractIsolationTasks input =
     (if iso_mode input = ModeParallel then or_empty (iso_tasks input)
      else if iso_mode input = ModeChain then or_empty (iso_chain input)
      else (case iso_single input of None \<Rightarrow> [] | Some s \<Rightarrow> [s]))"

definition isWriteIntent :: "string \<Rightarrow> bool" where
  "isWriteIntent t =
     (let normalized = toLowerCase t
      in list_ex (\<lambda>keyword. str_includes normalized keyword) WRITE_TASK_KEYWORDS)"

definition isLikelyReadOnlyIntent :: "string \<Rightarrow> bool" where
  "isLikelyReadOnlyIntent t =
     (let normalized = toLowerCase t;
          hasReadKeyword = list_ex (\<lambda>keyword. str_includes normalized keyword) READ_ONLY_TASK_KEYWORDS;
          hasWriteKeyword = list_ex (\<lambda>keyword. str_includes normalized keyword) WRITE_TASK_KEYWORDS
      in hasReadKeyword \<and> \<not> hasWriteKeyword)"

definition isWriteCapable :: "string list option \<Rightarrow> bool" where
  "isWriteCapable tools_opt =
     (case tools_opt of
        None \<Rightarrow> True
      | Some ts \<Rightarrow>
          if length ts = 0 then True
          else list_ex (\<lambda>tool. tool \<in> set DIRECT_WRITE_TOOLS) ts)"

definition decideExecutionIsolation ::
  "ExecutionIsolationDecisionInput \<Rightarrow> ExecutionIsolationDecision" where
  "decideExecutionIsolation input =
     (if requestedIsolation input = IsolationShared
      then \<lparr>dec_requestedIsolation = requestedIsolation input, selectedIsolation = Shared,
            reason = ''isolation explicitly set to shared''\<rparr>
      else if requestedIsolation input = IsolationWorktree
      then \<lparr>dec_requestedIsolation = requestedIsolation input, selectedIsolation = Worktree,
            reason = ''isolation explicitly set to worktree''\<rparr>
      else
        (let ts = extractIsolationTasks input;
             hasWriteIntent = list_ex (\<lambda>t. isWriteIntent (iso_task t)) ts;
             hasReadOnlyIntent = (length ts > 0 \<and> list_all (\<lambda>t. isLikelyReadOnlyIntent (iso_task t)) ts);
             hasWriteCapableAgents = list_ex (\<lambda>t. isWriteCapable (agentTools t)) ts
         in
         if iso_mode input = ModeParallel
         then
           (if length ts \<le> 1
            then \<lparr>dec_requestedIsolation = requestedIsolation input, selectedIsolation = Shared,
                  reason = ''auto isolation: parallel requested but <=1 task, shared is sufficient''\<rparr>
            else if hasReadOnlyIntent \<and> \<not> hasWriteIntent
            then \<lparr>dec_requestedIsolation = requestedIsolation input, selectedIsolation = Shared,
                  reason = ''auto isolation: parallel read-only tasks, shared preferred''\<rparr>
            else \<lparr>dec_requestedIsolation = requestedIsolation input, selectedIsolation = Worktree,
                  reason = ''auto isolation: parallel lane with potential writes, using worktree''\<rparr>)
         else if iso_mode input = ModeChain
         then
           (if hasWriteIntent \<or> hasWriteCapableAgents
            then \<lparr>dec_requestedIsolation = requestedIsolation input, selectedIsolation = Worktree,
                  reason = ''auto isolation: chained execution with write potential, using worktree''\<rparr>
            else \<lparr>dec_requestedIsolation = requestedIsolation input, selectedIsolation = Shared,
                  reason = ''auto isolation: chained read-only tasks, shared preferred''\<rparr>)
         else if hasWriteIntent \<and> hasWriteCapableAgents
         then \<lparr>dec_requestedIsolation = requestedIsolation input, selectedIsolation = Worktree,
               reason = ''auto isolation: single task with explicit write intent, using worktree''\<rparr>
         else \<lparr>dec_requestedIsolation = requestedIsolation input, selectedIsolation = Shared,
               reason = ''auto isolation: single task defaulting to shared''\<rparr>))"

section \<open>Shared-context ledger (context-memory.ts, the second part of phase-gates.ts)\<close>

datatype SharedContextMode = Isolated | SharedRead | SharedWrite

record TaskHandoffEnvelope =
  env_runId :: string
  env_taskId :: string
  env_parentTaskId :: "string option"
  env_agent :: string
  env_task :: string
  env_mode :: TopologyMode
  env_depth :: int
  env_createdAtMs :: int

datatype outcome = Success | Error

text \<open>
  A ledger entry: the base fields and the fields of its kind. \<open>OtherKind\<close> is an object
  whose \<^verbatim>\<open>type\<close> is none of the three (the reader does not check it).
\<close>

datatype entry_kind =
    Dispatch TaskHandoffEnvelope SharedContextMode
  | Observation string string outcome string
  | Decision string string string
  | OtherKind

record SharedContextEntry =
  entryId :: string
  entry_runId :: string
  entry_createdAtMs :: int
  kind :: entry_kind

text \<open>
  The ledger file is its list of lines. A line is represented by what the reader makes of
  it: \<open>EntryLine e\<close> is the line \<^verbatim>\<open>JSON.stringify(e)\<close>, which \<^verbatim>\<open>JSON.parse\<close> reads back
  as \<open>e\<close>; \<open>SkippedLine\<close> is a line the reader drops whatever the run (blank, not JSON, or
  without a \<^verbatim>\<open>runId\<close>).
\<close>

datatype ledger_line = SkippedLine string | EntryLine SharedContextEntry

type_synonym ledger = "ledger_line list"

text \<open>The two stores: \<open>FileStore ledgerPath runId\<close> and the no-op store.\<close>

datatype SharedContextStore = FileStore string string | NoopStore

text \<open>
  \<^verbatim>\<open>append\<close>: one line more at the end of the file; a write that fails (\<open>io_ok\<close> false)
  is swallowed.
\<close>

definition append_entry :: "bool \<Rightarrow> ledger \<Rightarrow> SharedContextEntry \<Rightarrow> ledger" where
  "append_entry io_ok file e = (if io_ok then file @ [EntryLine e] else file)"

text \<open>\<open>newEntryId\<close> is \<^verbatim>\<open>createEntryId()\<close> and \<open>nowMs\<close> is \<^verbatim>\<open>Date.now()\<close>.\<close>

definition appendDispatch ::
  "SharedContextStore \<Rightarrow> bool \<Rightarrow> string \<Rightarrow> int \<Rightarrow> ledger
     \<Rightarrow> TaskHandoffEnvelope \<Rightarrow> SharedContextMode \<Rightarrow> ledger" where
  "appendDispatch store io_ok newEntryId nowMs file envelope contextMode =
     (case store of
        NoopStore \<Rightarrow> file
      | FileStore ledgerPath storeRunId \<Rightarrow>
          append_entry io_ok file
            \<lparr>entryId = newEntryId, entry_runId = storeRunId, entry_createdAtMs = nowMs,
             kind = Dispatch envelope contextMode\<rparr>)"

definition appendObservation ::
  "SharedContextStore \<Rightarrow> bool \<Rightarrow> string \<Rightarrow> int \<Rightarrow> ledger
     \<Rightarrow> string \<Rightarrow> string \<Rightarrow> outcome \<Rightarrow> string \<Rightarrow> ledger" where
  "appendObservation store io_ok newEntryId nowMs file taskId agentName status summary =
     (case store of
        NoopStore \<Rightarrow> file
      | FileStore ledgerPath storeRunId \<Rightarrow>
          append_entry io_ok file
            \<lparr>entryId = newEntryId, entry_runId = storeRunId, entry_createdAtMs = nowMs,
             kind = Observation taskId agentName status summary\<rparr>)"

definition appendDecision ::
  "SharedContextStore \<Rightarrow> bool \<Rightarrow> string \<Rightarrow> int \<Rightarrow> ledger
     \<Rightarrow> string \<Rightarrow> string \<Rightarrow> string \<Rightarrow> ledger" where
  "appendDecision store io_ok newEntryId nowMs file taskId coordinator decision =
     (case store of
        NoopStore \<Rightarrow> file
      | FileStore ledgerPath storeRunId \<Rightarrow>
          append_entry io_ok file
            \<lparr>entryId = newEntryId, entry_runId = storeRunId, entry_createdAtMs = nowMs,
             kind = Decision taskId coordinator decision\<rparr>)"

text \<open>The entries of the lines that parse and carry the store's run id, in file order.\<close>

fun run_entries :: "string \<Rightarrow> ledger \<Rightarrow> SharedContextEntry list" where
  "run_entries rid [] = []"
| "run_entries rid (SkippedLine l # ls) = run_entries rid ls"
| "run_entries rid (EntryLine e # ls) =
     (if entry_runId e = rid then e # run_entries rid ls else run_entries rid ls)"

text \<open>\<^verbatim>\<open>xs.slice(-k)\<close> for an integer \<open>k \<ge> 1\<close>.\<close>

definition slice_last :: "'a list \<Rightarrow> int \<Rightarrow> 'a list" where
  "slice_last xs k = drop (nat (max (int (length xs) - k) 0)) xs"

text \<open>\<^verbatim>\<open>readRecent\<close>; \<open>io_ok\<close> false is a file that cannot be read.\<close>

definition readRecent :: "SharedContextStore \<Rightarrow> bool \<Rightarrow> ledger \<Rightarrow> int \<Rightarrow> SharedContextEntry list" where
  "readRecent store io_ok file limit =
     (case store of
        NoopStore \<Rightarrow> []
      | FileStore ledgerPath storeRunId \<Rightarrow>
          (let boundedLimit = max 1 (min 100 limit)
           in if \<not> io_ok then []
              else slice_last (run_entries storeRunId file) boundedLimit))"

definition outcome_text :: "outcome \<Rightarrow> string" where
  "outcome_text st = (case st of Success \<Rightarrow> ''success'' | Error \<Rightarrow> ''error'')"

definition mode_text :: "SharedContextMode \<Rightarrow> string" where
  "mode_text m = (case m of Isolated \<Rightarrow> ''isolated'' | SharedRead \<Rightarrow> ''shared-read''
                  | SharedWrite \<Rightarrow> ''shared-write'')"

definition summarizeEntry :: "SharedContextEntry \<Rightarrow> string" where
  "summarizeEntry e =
     (case kind e of
        Dispatch envelope _ \<Rightarrow> ''dispatch '' @ env_agent envelope @ '' task:'' @ env_taskId envelope
      | Observation taskId agentName status summary \<Rightarrow>
          outcome_text status @ '' '' @ agentName @ '' task:'' @ taskId @ '' '' @ take 120 summary
      | Decision taskId coordinator decision \<Rightarrow>
          ''decision '' @ coordinator @ '' task:'' @ taskId @ '' '' @ take 120 decision
      | OtherKind \<Rightarrow> ''entry'')"

text \<open>\<^verbatim>\<open>lines.join(sep)\<close>.\<close>

fun join_with :: "string \<Rightarrow> string list \<Rightarrow> string" where
  "join_with sep [] = []"
| "join_with sep [l] = l"
| "join_with sep (l # m # ls) = l @ sep @ join_with sep (m # ls)"

definition buildSharedContextPacket ::
  "SharedContextMode \<Rightarrow> TaskHandoffEnvelope \<Rightarrow> SharedContextEntry list \<Rightarrow> string" where
  "buildSharedContextPacket contextMode envelope recentEntries =
     (if contextMode = Isolated then []
      else join_with [CHR 0x0A]
        ([''<shared_context>'',
          ''run_id: '' @ env_runId envelope,
          ''task_id: '' @ env_taskId envelope]
         @ (case env_parentTaskId envelope of
              None \<Rightarrow> []
            | Some p \<Rightarrow> if p = [] then [] else [''parent_task_id: '' @ p])
         @ [''context_mode: '' @ mode_text contextMode,
            ''recent_entries:'']
         @ (if length recentEntries = 0 then [''- none'']
            else map (\<lambda>e. ''- '' @ summarizeEntry e) recentEntries)
         @ [''</shared_context>'',
            ''Use shared_context as the source of truth when relevant. Do not duplicate long excerpts.'']))"

text \<open>
  \<^verbatim>\<open>prepareDelegation\<close>, a closure of the orchestrator over the budget, the store and the
  context configuration. What it draws from outside is passed in: the task id
  (\<^verbatim>\<open>createTaskId()\<close>), the entry id, the two clock readings and whether the write and the
  read of the file succeed. It returns the ledger file after the call, the task id and
  the task text handed to the child.
\<close>

record delegation_inputs =
  newTaskId :: string
  newEntryId :: string
  envelopeNowMs :: int
  entryNowMs :: int
  write_ok :: bool
  read_ok :: bool

definition prepareDelegation ::
  "ExecutionBudget \<Rightarrow> SharedContextStore \<Rightarrow> SharedContextMode \<Rightarrow> int \<Rightarrow> delegation_inputs
     \<Rightarrow> ledger \<Rightarrow> string \<Rightarrow> string \<Rightarrow> string option \<Rightarrow> TopologyMode
     \<Rightarrow> ledger \<times> string \<times> string" where
  "prepareDelegation budget store contextMode contextLimit ext file agentName rawTask parentTaskId runMode =
     (let taskId = newTaskId ext;
          envelope = \<lparr>env_runId = runId budget, env_taskId = taskId,
                      env_parentTaskId = parentTaskId, env_agent = agentName,
                      env_task = rawTask, env_mode = runMode, env_depth = depth budget + 1,
                      env_createdAtMs = envelopeNowMs ext\<rparr>;
          file' = appendDispatch store (write_ok ext) (newEntryId ext) (entryNowMs ext)
                    file envelope contextMode;
          packet = buildSharedContextPacket contextMode envelope
                     (readRecent store (read_ok ext) file' contextLimit);
          executionTask = (if packet \<noteq> [] then rawTask @ [CHR 0x0A, CHR 0x0A] @ packet else rawTask)
      in (file', taskId, executionTask))"

section \<open>Phase gate state (phase-gates.ts)\<close>

datatype PhaseGateStatus = Pending | Passed | Failed | Skipped

datatype gate_key = Topology | Smoke

record SmokeCommandResult =
  command :: string
  exitCode :: int
  stdout :: string
  stderr :: string
  durationMs :: int

record SmokeFixAttemptRecord =
  attempt :: int
  fix_agent :: string
  fix_outcome :: outcome
  summary :: string

record PhaseGate =
  key :: gate_key
  label :: string
  required :: bool
  status :: PhaseGateStatus
  detail :: "string option"

record PhaseGateState =
  phaseName :: "string option"
  requireSmoke :: bool
  smokeCommands :: "string list"
  smokeMaxRetries :: int
  smokeMaxFixAttempts :: int
  smokeAttempts :: int
  smokeFixAttempts :: int
  smokeFixHistory :: "SmokeFixAttemptRecord list"
  gates :: "PhaseGate list"
  smokeResults :: "SmokeCommandResult list"

record PhaseGateInit =
  init_phaseName :: "string option"
  init_requireSmoke :: "bool option"
  init_smokeCommands :: "string list option"
  topologySummary :: string
  init_smokeMaxRetries :: "int option"
  init_smokeMaxFixAttempts :: "int option"

definition createPhaseGateState :: "PhaseGateInit \<Rightarrow> PhaseGateState" where
  "createPhaseGateState init =
     (let smokeCommands' = filter (\<lambda>c. length c > 0) (map trim (or_empty (init_smokeCommands init)));
          requireSmoke' = (init_requireSmoke init = Some True);
          smokeRequired = (requireSmoke' \<or> length smokeCommands' > 0);
          smokeMaxRetries' = max 0 (case init_smokeMaxRetries init of None \<Rightarrow> 1 | Some n \<Rightarrow> n);
          smokeMaxFixAttempts' = max 0 (case init_smokeMaxFixAttempts init of None \<Rightarrow> 2 | Some n \<Rightarrow> n)
      in \<lparr>phaseName = init_phaseName init,
           requireSmoke = requireSmoke',
           smokeCommands = smokeCommands',
           smokeMaxRetries = smokeMaxRetries',
           smokeMaxFixAttempts = smokeMaxFixAttempts',
           smokeAttempts = 0,
           smokeFixAttempts = 0,
           smokeFixHistory = [],
           gates =
             [\<lparr>key = Topology, label = ''Topology decision'', required = True, status = Passed,
               detail = Some (topologySummary init)\<rparr>,
              \<lparr>key = Smoke, label = ''Phase smoke'', required = smokeRequired,
               status = (if smokeRequired then Pending else Skipped),
               detail = Some (if smokeRequired
                              then show_int (int (length smokeCommands')) @ '' command(s)''
                              else ''not configured'')\<rparr>],
           smokeResults = []\<rparr>)"

definition validatePhaseGateState :: "PhaseGateState \<Rightarrow> string option" where
  "validatePhaseGateState state =
     (if requireSmoke state \<and> length (smokeCommands state) = 0
      then Some ''Phase smoke gate requires at least one smoke command (phaseSmokeCommands).''
      else if smokeMaxRetries state < 0 then Some ''phaseSmokeRetries must be >= 0.''
      else if smokeMaxFixAttempts state < 0 then Some ''phaseMaxFixAttempts must be >= 0.''
      else None)"

definition failedResult :: "SmokeCommandResult list \<Rightarrow> SmokeCommandResult option" where
  "failedResult rs = find (\<lambda>r. exitCode r \<noteq> 0) rs"

definition applySmokeResults :: "PhaseGateState \<Rightarrow> SmokeCommandResult list \<Rightarrow> PhaseGateState" where
  "applySmokeResults state rs =
     (let attemptsLabel = ''attempt '' @ show_int (smokeAttempts state);
          fixLabel = ''fixes '' @ show_int (smokeFixAttempts state) @ ''/''
                       @ show_int (smokeMaxFixAttempts state)
      in state\<lparr>smokeResults := rs,
               gates := map (\<lambda>gate.
                   if key gate \<noteq> Smoke then gate
                   else if required gate \<or> length rs > 0
                   then (case failedResult rs of
                           Some f \<Rightarrow>
                             gate\<lparr>status := Failed,
                                  detail := Some (command f @ '' (exit '' @ show_int (exitCode f)
                                              @ '', '' @ attemptsLabel @ '', '' @ fixLabel @ '')'')\<rparr>
                         | None \<Rightarrow>
                             gate\<lparr>status := Passed,
                                  detail := Some (show_int (int (length rs)) @ '' command(s) passed (''
                                              @ attemptsLabel @ '', '' @ fixLabel @ '')'')\<rparr>)
                   else gate) (gates state)\<rparr>)"

definition markSmokeSkipped :: "PhaseGateState \<Rightarrow> PhaseGateState" where
  "markSmokeSkipped state =
     state\<lparr>gates := map (\<lambda>gate.
              if key gate \<noteq> Smoke then gate
              else if \<not> required gate then gate\<lparr>status := Skipped, detail := Some ''not required''\<rparr>
              else gate) (gates state)\<rparr>"

definition recordSmokeFixAttempt :: "PhaseGateState \<Rightarrow> SmokeFixAttemptRecord \<Rightarrow> PhaseGateState" where
  "recordSmokeFixAttempt state entry =
     state\<lparr>smokeFixAttempts := max (smokeFixAttempts state) (attempt entry),
           smokeFixHistory := smokeFixHistory state @ [entry]\<rparr>"

section \<open>The orchestrator (\<^verbatim>\<open>execute\<close> in worktree.ts): chain driver and phase smoke gate\<close>

record AgentConfig =
  name :: string
  tools :: "string list option"

definition canNestAgent :: "AgentConfig \<Rightarrow> bool" where
  "canNestAgent a = (case tools a of None \<Rightarrow> False | Some ts \<Rightarrow> ''subagent'' \<in> set ts)"

text \<open>
  What the orchestrator reads of a child's result: \<open>res_finalOutput\<close> is
  \<^verbatim>\<open>getFinalOutput(result.messages)\<close>.
\<close>

record SingleResult =
  res_agent :: string
  res_exitCode :: int
  res_stopReason :: "string option"
  res_finalOutput :: string
  res_errorMessage :: "string option"
  res_stderr :: string

text \<open>A tool result: its text and its \<^verbatim>\<open>isError\<close> flag (absent is \<open>False\<close>).\<close>

record ToolResult =
  content_text :: string
  isError :: bool


text \<open>
  The variables the closures of \<^verbatim>\<open>execute\<close> share and change: the phase gate state, the
  budget, the ledger file, and (for the proofs) the child budgets handed to
  \<^verbatim>\<open>runSingleAgent\<close> so far.
\<close>

record orch_state =
  st_gate :: PhaseGateState
  st_budget :: ExecutionBudget
  st_file :: ledger
  st_spawned :: "ChildProcessBudget list"

text \<open>What they only read.\<close>

record orch_env =
  store :: SharedContextStore
  contextMode :: SharedContextMode
  contextLimit :: int
  getAgentByName :: "string \<Rightarrow> AgentConfig option"
  available :: string
  selectedSingle :: "ExecutionTaskItem option"
  selectedTasks :: "ExecutionTaskItem list"
  selectedChain :: "ExecutionTaskItem list"
  rootTaskId :: string

text \<open>
  What comes from outside the program, by the place that asks for it: the clock, the
  random ids and file system of each delegation and observation, the child process, and
  the smoke commands (by the number of the smoke attempt). \<open>projectAgentsConfirmed\<close> is
  false when \<^verbatim>\<open>execute\<close> asks whether project-local agents may run and the answer is no;
  \<open>chainWorktreeError\<close> is the error of \<^verbatim>\<open>createWorktreeAssignment\<close> for the chain lane,
  when worktree isolation is active and the call throws.
\<close>

datatype call_site = Entry | ChainStep nat | FixAttempt int

record world =
  clock :: "call_site \<Rightarrow> int"
  projectAgentsConfirmed :: bool
  chainWorktreeError :: "string option"
  delegation_ext :: "call_site \<Rightarrow> delegation_inputs"
  observation_ext :: "call_site \<Rightarrow> delegation_inputs"
  runSingleAgent :: "call_site \<Rightarrow> string \<Rightarrow> string \<Rightarrow> string \<Rightarrow> ChildProcessBudget \<Rightarrow> SingleResult"
  runSmokeCommand :: "int \<Rightarrow> string \<Rightarrow> SmokeCommandResult"

text \<open>\<^verbatim>\<open>a || b || ... || last\<close> on strings: the first that is not empty.\<close>

fun first_truthy :: "string list \<Rightarrow> string \<Rightarrow> string" where
  "first_truthy [] last_one = last_one"
| "first_truthy (x # xs) last_one = (if x \<noteq> [] then x else first_truthy xs last_one)"

definition resultIsError :: "SingleResult \<Rightarrow> bool" where
  "resultIsError r =
     (res_exitCode r \<noteq> 0 \<or> res_stopReason r = Some ''error'' \<or> res_stopReason r = Some ''aborted'')"

definition resultSummary :: "SingleResult \<Rightarrow> string" where
  "resultSummary r =
     take 800 (first_truthy [res_finalOutput r, or_empty (res_errorMessage r), res_stderr r]
                 ''(no output)'')"









text \<open>\<^verbatim>\<open>runSmokeCommands\<close>: the commands in order, stopping after the first that fails.\<close>

fun runSmokeCommands :: "(string \<Rightarrow> SmokeCommandResult) \<Rightarrow> string list \<Rightarrow> SmokeCommandResult list" where
  "runSmokeCommands run [] = []"
| "runSmokeCommands run (c # cs) =
     (let result = (run c)\<lparr>command := c\<rparr>
      in if exitCode result \<noteq> 0 then [result] else result # runSmokeCommands run cs)"

text \<open>
  \<^verbatim>\<open>runSmokeWithRetries\<close>: the loop over \<open>retry\<close>, on the phase gate state. It returns
  the state, whether a run passed, and the failing result of the last run.
\<close>

function runSmokeRetryLoop ::
  "world \<Rightarrow> int \<Rightarrow> SmokeCommandResult option \<Rightarrow> PhaseGateState
     \<Rightarrow> PhaseGateState \<times> bool \<times> SmokeCommandResult option" where
  "runSmokeRetryLoop W retry failed g =
     (if retry \<le> smokeMaxRetries g
      then
        (let g1 = g\<lparr>smokeAttempts := smokeAttempts g + 1\<rparr>;
             rs = runSmokeCommands (runSmokeCommand W (smokeAttempts g1)) (smokeCommands g1);
             g2 = applySmokeResults g1 rs
         in case failedResult rs of
              None \<Rightarrow> (g2, True, None)
            | Some f \<Rightarrow> runSmokeRetryLoop W (retry + 1) (Some f) g2)
      else (g, False, failed))"
  by pat_completeness auto
termination
  by (relation "measure (\<lambda>(W, retry, failed, g). nat (smokeMaxRetries g + 1 - retry))")
     (auto simp: applySmokeResults_def Let_def)

definition runSmokeWithRetries ::
  "world \<Rightarrow> PhaseGateState \<Rightarrow> PhaseGateState \<times> bool \<times> SmokeCommandResult option" where
  "runSmokeWithRetries W g = runSmokeRetryLoop W 0 None g"

lemma runSmokeRetryLoop_keeps:
  "runSmokeRetryLoop W retry failed g = (g', passed, f) \<Longrightarrow>
     smokeMaxFixAttempts g' = smokeMaxFixAttempts g
   \<and> smokeFixAttempts g' = smokeFixAttempts g
   \<and> smokeFixHistory g' = smokeFixHistory g
   \<and> smokeMaxRetries g' = smokeMaxRetries g
   \<and> smokeCommands g' = smokeCommands g
   \<and> requireSmoke g' = requireSmoke g
   \<and> phaseName g' = phaseName g"
proof (induction W retry failed g rule: runSmokeRetryLoop.induct)
  case (1 W retry failed g)
  show ?case
  proof (cases "retry \<le> smokeMaxRetries g")
    case False
    with "1.prems" show ?thesis by simp
  next
    case True
    let ?g1 = "g\<lparr>smokeAttempts := smokeAttempts g + 1\<rparr>"
    let ?rs = "runSmokeCommands (runSmokeCommand W (smokeAttempts ?g1)) (smokeCommands ?g1)"
    let ?g2 = "applySmokeResults ?g1 ?rs"
    have g2: "smokeMaxFixAttempts ?g2 = smokeMaxFixAttempts g
            \<and> smokeFixAttempts ?g2 = smokeFixAttempts g
            \<and> smokeFixHistory ?g2 = smokeFixHistory g
            \<and> smokeMaxRetries ?g2 = smokeMaxRetries g
            \<and> smokeCommands ?g2 = smokeCommands g
            \<and> requireSmoke ?g2 = requireSmoke g
            \<and> phaseName ?g2 = phaseName g"
      by (simp add: applySmokeResults_def Let_def)
    show ?thesis
    proof (cases "failedResult ?rs")
      case None
      with True "1.prems" have "g' = ?g2" by (simp add: Let_def)
      with g2 show ?thesis by simp
    next
      case (Some f')
      with True "1.prems" have "runSmokeRetryLoop W (retry + 1) (Some f') ?g2 = (g', passed, f)"
        by (simp add: Let_def)
      from "1.IH"[OF True refl refl refl Some this] g2 show ?thesis by simp
    qed
  qed
qed

lemma runSmokeWithRetries_keeps_max:
  "runSmokeWithRetries W g = (g', passed, f) \<Longrightarrow> smokeMaxFixAttempts g' = smokeMaxFixAttempts g"
  unfolding runSmokeWithRetries_def by (drule runSmokeRetryLoop_keeps) simp

lemma runSmokeWithRetries_fst_max:
  "smokeMaxFixAttempts (fst (runSmokeWithRetries W g)) = smokeMaxFixAttempts g"
  by (cases "runSmokeWithRetries W g") (auto dest: runSmokeWithRetries_keeps_max)

text \<open>\<^verbatim>\<open>getFixAgent\<close>; \<open>falsy\<close> is \<^verbatim>\<open>!preferredAgent\<close>.\<close>

definition falsy :: "string option \<Rightarrow> bool" where
  "falsy x = (x = None \<or> x = Some [])"

definition getFixAgent ::
  "orch_env \<Rightarrow> TopologyMode \<Rightarrow> SingleResult list \<Rightarrow> AgentConfig option" where
  "getFixAgent E currentMode completedResults =
     (let preferred0 =
            (if currentMode = ModeSingle then map_option agent (selectedSingle E)
             else if currentMode = ModeChain
             then (if selectedChain E = [] then None else Some (agent (last (selectedChain E))))
             else (case selectedTasks E of [] \<Rightarrow> None | t # _ \<Rightarrow> Some (agent t)));
          preferredAgent =
            (if falsy preferred0 \<and> length completedResults > 0
             then Some (res_agent (last completedResults)) else preferred0)
      in if falsy preferredAgent then None else getAgentByName E (or_empty preferredAgent))"

record gate_result =
  ok :: bool
  message :: "string option"

definition exit_text :: "SmokeCommandResult \<Rightarrow> string" where
  "exit_text f = command f @ '' (exit '' @ show_int (exitCode f) @ '')''"

definition remediationTask ::
  "PhaseGateState \<Rightarrow> SmokeCommandResult option \<Rightarrow> int \<Rightarrow> string" where
  "remediationTask g failed fixAttempt =
     join_with [CHR 0x0A, CHR 0x0A]
       (filter (\<lambda>l. l \<noteq> [])
          [''Phase smoke gate failed. Apply a minimal fix and stop.'',
           ''Phase: '' @ (case phaseName g of None \<Rightarrow> ''unspecified'' | Some p \<Rightarrow> p),
           (case failed of
              Some f \<Rightarrow> ''Failing command: '' @ exit_text f
            | None \<Rightarrow> ''Failing command: unknown''),
           (case failed of
              Some f \<Rightarrow> if stderr f \<noteq> [] then ''stderr:'' @ [CHR 0x0A] @ take 1500 (stderr f) else []
            | None \<Rightarrow> []),
           (case failed of
              Some f \<Rightarrow> if stdout f \<noteq> [] then ''stdout:'' @ [CHR 0x0A] @ take 800 (stdout f) else []
            | None \<Rightarrow> []),
           ''Fix pass: '' @ show_int fixAttempt @ ''/'' @ show_int (smokeMaxFixAttempts g),
           ''Do not refactor unrelated files. Preserve existing behavior.''])"

definition fix_record :: "int \<Rightarrow> AgentConfig \<Rightarrow> outcome \<Rightarrow> string \<Rightarrow> SmokeFixAttemptRecord" where
  "fix_record fixAttempt fixAgent oc text_summary =
     \<lparr>attempt = fixAttempt, fix_agent = name fixAgent, fix_outcome = oc, summary = text_summary\<rparr>"

text \<open>
  One turn of the bounded fix loop of \<^verbatim>\<open>runPhaseSmokeGate\<close>; \<open>initialFailed\<close> is
  \<^verbatim>\<open>initialSmoke.failed\<close>. \<open>Some r\<close> is \<^verbatim>\<open>return r\<close>, \<open>None\<close> goes on to the next turn
  (by \<^verbatim>\<open>continue\<close> or by reaching the end of the body).
\<close>

definition fixStep ::
  "orch_env \<Rightarrow> world \<Rightarrow> TopologyMode \<Rightarrow> AgentConfig \<Rightarrow> SmokeCommandResult option \<Rightarrow> int
     \<Rightarrow> orch_state \<Rightarrow> orch_state \<times> gate_result option" where
  "fixStep E W currentMode fixAgent initialFailed fixAttempt st =
     (let failed = (case failedResult (smokeResults (st_gate st)) of
                      Some f \<Rightarrow> Some f | None \<Rightarrow> initialFailed)
      in if remainingTokens (st_budget st) \<le> 0
         then (st\<lparr>st_gate := recordSmokeFixAttempt (st_gate st)
                     (fix_record fixAttempt fixAgent Error ''budget exhausted before fix attempt'')\<rparr>,
               Some \<lparr>ok = False,
                     message = Some (''Phase smoke gate failed and fix loop exhausted budget before attempt ''
                                       @ show_int fixAttempt @ ''.'')\<rparr>)
         else
           (let task_text = remediationTask (st_gate st) failed fixAttempt
            in case prepareDelegation (st_budget st) (store E) (contextMode E) (contextLimit E)
                      (delegation_ext W (FixAttempt fixAttempt)) (st_file st) (name fixAgent)
                      task_text (Some (rootTaskId E)) currentMode of
                 (file1, taskId, executionTask) \<Rightarrow>
                   (case reserveChildBudget (st_budget st) (name fixAgent) task_text 0
                           (canNestAgent fixAgent) of
                      (budget', Inl e) \<Rightarrow>
                        (st\<lparr>st_file := file1, st_budget := budget',
                            st_gate := recordSmokeFixAttempt (st_gate st)
                              (fix_record fixAttempt fixAgent Error
                                 (''fix attempt blocked: '' @ reserve_error_message e))\<rparr>,
                         Some \<lparr>ok = False,
                               message = Some (''Phase smoke fix attempt blocked: ''
                                                 @ reserve_error_message e)\<rparr>)
                    | (budget', Inr fixBudget) \<Rightarrow>
                        (let fixResult = runSingleAgent W (FixAttempt fixAttempt) (name fixAgent)
                                           task_text executionTask fixBudget;
                             fixFailed = resultIsError fixResult;
                             fixSummary = resultSummary fixResult;
                             ext = observation_ext W (FixAttempt fixAttempt);
                             st3 = st\<lparr>st_budget := budget',
                                      st_spawned := st_spawned st @ [fixBudget],
                                      st_file :=
                                        appendObservation (store E) (write_ok ext) (newEntryId ext)
                                          (entryNowMs ext) file1 taskId (name fixAgent)
                                          (if fixFailed then Error else Success) fixSummary\<rparr>
                         in if fixFailed
                            then (st3\<lparr>st_gate := recordSmokeFixAttempt (st_gate st3)
                                        (fix_record fixAttempt fixAgent Error
                                           (''fix run failed: '' @ take 180 fixSummary))\<rparr>,
                                  None)
                            else
                              (case runSmokeWithRetries W (st_gate st3) of
                                 (g, passed, postFailed) \<Rightarrow>
                                   if passed
                                   then (st3\<lparr>st_gate := recordSmokeFixAttempt g
                                              (fix_record fixAttempt fixAgent Success
                                                 ''fix applied and smoke gate passed'')\<rparr>,
                                         Some \<lparr>ok = True,
                                               message = Some (''Phase smoke passed after fix attempt ''
                                                                 @ show_int fixAttempt @ ''.'')\<rparr>)
                                   else (st3\<lparr>st_gate := recordSmokeFixAttempt g
                                              (fix_record fixAttempt fixAgent Error
                                                 (case failedResult (smokeResults g) of
                                                    Some pf \<Rightarrow> ''smoke still failing: '' @ exit_text pf
                                                  | None \<Rightarrow> ''smoke still failing after fix''))\<rparr>,
                                         None))))))"

lemma fixStep_keeps_max:
  "smokeMaxFixAttempts (st_gate (fst (fixStep E W currentMode fixAgent initialFailed fixAttempt st)))
     = smokeMaxFixAttempts (st_gate st)"
proof -
  have smoke: "\<And>g g' passed f. runSmokeWithRetries W g = (g', passed, f)
                 \<Longrightarrow> smokeMaxFixAttempts g' = smokeMaxFixAttempts g"
    by (rule runSmokeWithRetries_keeps_max)
  show ?thesis
    by (auto simp: fixStep_def Let_def recordSmokeFixAttempt_def
             split: prod.splits sum.splits if_splits dest: smoke)
qed

text \<open>
  The fix loop from \<open>fixAttempt\<close> on, and what \<^verbatim>\<open>runPhaseSmokeGate\<close> returns when the loop
  runs out of attempts.
\<close>

function fixLoop ::
  "orch_env \<Rightarrow> world \<Rightarrow> TopologyMode \<Rightarrow> AgentConfig \<Rightarrow> SmokeCommandResult option \<Rightarrow> int
     \<Rightarrow> orch_state \<Rightarrow> orch_state \<times> gate_result" where
  "fixLoop E W currentMode fixAgent initialFailed fixAttempt st =
     (if fixAttempt \<le> smokeMaxFixAttempts (st_gate st)
      then (case fixStep E W currentMode fixAgent initialFailed fixAttempt st of
              (st', Some r) \<Rightarrow> (st', r)
            | (st', None) \<Rightarrow> fixLoop E W currentMode fixAgent initialFailed (fixAttempt + 1) st')
      else
        (st,
         \<lparr>ok = False,
          message = Some
            (''Phase smoke gate failed after '' @ show_int (smokeFixAttempts (st_gate st)) @ ''/''
               @ show_int (smokeMaxFixAttempts (st_gate st)) @ '' fix attempts''
               @ (case (case failedResult (smokeResults (st_gate st)) of
                          Some f \<Rightarrow> Some f | None \<Rightarrow> initialFailed) of
                    Some tf \<Rightarrow> '': '' @ exit_text tf @ ''.''
                  | None \<Rightarrow> ''.''))\<rparr>))"
  by pat_completeness auto
termination
proof (relation "measure (\<lambda>(E, W, currentMode, fixAgent, initialFailed, fixAttempt, st).
                   nat (smokeMaxFixAttempts (st_gate st) + 1 - fixAttempt))", goal_cases)
  case 1
  show ?case by simp
next
  case (2 E W currentMode fixAgent initialFailed fixAttempt st st' out)
  then have "st' = fst (fixStep E W currentMode fixAgent initialFailed fixAttempt st)"
    by (metis fst_conv)
  then have "smokeMaxFixAttempts (st_gate st') = smokeMaxFixAttempts (st_gate st)"
    by (simp add: fixStep_keeps_max)
  with 2 show ?case by simp
qed

text \<open>\<^verbatim>\<open>runPhaseSmokeGate\<close>.\<close>

definition runPhaseSmokeGate ::
  "orch_env \<Rightarrow> world \<Rightarrow> TopologyMode \<Rightarrow> SingleResult list \<Rightarrow> orch_state
     \<Rightarrow> orch_state \<times> gate_result" where
  "runPhaseSmokeGate E W currentMode completedResults st =
     (if length (smokeCommands (st_gate st)) = 0
      then (st\<lparr>st_gate := markSmokeSkipped (st_gate st)\<rparr>, \<lparr>ok = True, message = None\<rparr>)
      else
        (case runSmokeWithRetries W (st_gate st) of
           (g, passed, initialFailed) \<Rightarrow>
             (let st1 = st\<lparr>st_gate := g\<rparr>
              in if passed
                 then (let retryCount = max 0 (smokeAttempts g - 1)
                       in if retryCount > 0
                          then (st1, \<lparr>ok = True,
                                      message = Some (''Phase smoke passed after '' @ show_int retryCount
                                                        @ '' retry attempt(s).'')\<rparr>)
                          else (st1, \<lparr>ok = True, message = None\<rparr>))
                 else if \<not> requireSmoke g
                 then (case initialFailed of
                         None \<Rightarrow> (st1, \<lparr>ok = True, message = None\<rparr>)
                       | Some f \<Rightarrow>
                           (st1, \<lparr>ok = True, message = Some (''Phase smoke warning: '' @ exit_text f)\<rparr>))
                 else
                   (case getFixAgent E currentMode completedResults of
                      None \<Rightarrow>
                        (st1, \<lparr>ok = False,
                               message = Some (case initialFailed of
                                   Some f \<Rightarrow> ''Phase smoke gate failed: '' @ exit_text f
                                               @ ''. No fix attempts available.''
                                 | None \<Rightarrow> ''Phase smoke gate failed and no fix attempts are available.'')\<rparr>)
                    | Some fixAgent \<Rightarrow>
                        if smokeMaxFixAttempts g = 0
                        then (st1, \<lparr>ok = False,
                                    message = Some (case initialFailed of
                                        Some f \<Rightarrow> ''Phase smoke gate failed: '' @ exit_text f
                                                    @ ''. No fix attempts available.''
                                      | None \<Rightarrow> ''Phase smoke gate failed and no fix attempts are available.'')\<rparr>)
                        else fixLoop E W currentMode fixAgent initialFailed 1 st1))))"

text \<open>
  What each of the three drivers does with the gate's answer: a gate that is not \<open>ok\<close>
  becomes an error result carrying the gate's message.
\<close>

definition afterSmokeGate :: "gate_result \<Rightarrow> string \<Rightarrow> ToolResult" where
  "afterSmokeGate smokeGate finalOutput =
     (if \<not> ok smokeGate
      then \<lparr>content_text = (case message smokeGate of
                               Some m \<Rightarrow> m | None \<Rightarrow> ''Phase smoke gate failed.''),
            isError = True\<rparr>
      else \<lparr>content_text = (if falsy (message smokeGate) then finalOutput
                             else finalOutput @ [CHR 0x0A, CHR 0x0A] @ or_empty (message smokeGate)),
            isError = False\<rparr>)"

section \<open>An example run\<close>

text \<open>
  Two agents, a chain of four steps, a world in which every child succeeds and the smoke
  command fails until the third smoke attempt, and one in which it always fails.
\<close>

definition demo_agents :: "string \<Rightarrow> AgentConfig option" where
  "demo_agents n =
     (if n = ''scout'' then Some \<lparr>name = ''scout'', tools = Some [''read'', ''grep'']\<rparr>
      else if n = ''worker'' then Some \<lparr>name = ''worker'', tools = None\<rparr>
      else None)"

definition demo_chain :: "ExecutionTaskItem list" where
  "demo_chain =
     [\<lparr>agent = ''scout'', task = ''Collect facts'', cwd = None\<rparr>,
      \<lparr>agent = ''worker'', task = ''Implement using {previous}'', cwd = None\<rparr>,
      \<lparr>agent = ''scout'', task = ''Review {previous}'', cwd = None\<rparr>,
      \<lparr>agent = ''worker'', task = ''Polish it'', cwd = None\<rparr>]"

definition demo_env :: orch_env where
  "demo_env =
     \<lparr>store = FileStore ''/tmp/run-1.jsonl'' ''run-1'', contextMode = SharedRead,
      contextLimit = 12, getAgentByName = demo_agents, available = ''scout, worker'',
      selectedSingle = None, selectedTasks = [], selectedChain = demo_chain,
      rootTaskId = ''root''\<rparr>"

definition demo_ext :: "call_site \<Rightarrow> delegation_inputs" where
  "demo_ext site =
     \<lparr>newTaskId = ''t1'', newEntryId = ''e1'', envelopeNowMs = 2000, entryNowMs = 2000,
      write_ok = True, read_ok = True\<rparr>"

definition demo_child :: "call_site \<Rightarrow> string \<Rightarrow> string \<Rightarrow> string \<Rightarrow> ChildProcessBudget \<Rightarrow> SingleResult" where
  "demo_child site agentName task_text executionTask childBudget =
     \<lparr>res_agent = agentName, res_exitCode = 0, res_stopReason = None,
      res_finalOutput = ''done'', res_errorMessage = None, res_stderr = []\<rparr>"

definition demo_smoke :: "int \<Rightarrow> int \<Rightarrow> string \<Rightarrow> SmokeCommandResult" where
  "demo_smoke passes_from attemptNo cmd =
     \<lparr>command = cmd, exitCode = (if attemptNo < passes_from then 1 else 0), stdout = [],
      stderr = ''boom'', durationMs = 5\<rparr>"

definition demo_world :: "int \<Rightarrow> world" where
  "demo_world passes_from =
     \<lparr>clock = (\<lambda>site. 2000), projectAgentsConfirmed = True, chainWorktreeError = None,
      delegation_ext = demo_ext, observation_ext = demo_ext,
      runSingleAgent = demo_child, runSmokeCommand = demo_smoke passes_from\<rparr>"

definition demo_state :: "int \<Rightarrow> PhaseGateInit \<Rightarrow> orch_state" where
  "demo_state tokens init =
     \<lparr>st_gate = createPhaseGateState init,
      st_budget = \<lparr>runId = ''run-1'', depth = 0, maxDepth = 2, rootStartedAtMs = 1000,
                    deadlineAtMs = 61000, remainingTokens = tokens, fingerprints = [],
                    canSpawnChildren = True\<rparr>,
      st_file = [], st_spawned = []\<rparr>"

definition demo_init :: PhaseGateInit where
  "demo_init =
     \<lparr>init_phaseName = Some ''phase-1'', init_requireSmoke = Some True,
      init_smokeCommands = Some [''npm test''], topologySummary = ''chain (recommended chain)'',
      init_smokeMaxRetries = Some 1, init_smokeMaxFixAttempts = Some 2\<rparr>"

section \<open>Reservation\<close>

text \<open>
  C1. A successful \<^verbatim>\<open>reserveChildBudget\<close> takes exactly \<open>1 + max 0 d\<close> tokens from the
  parent, puts the fingerprint \<open>lower (trim a) @ "::" @ normalize t\<close> into the parent's
  fingerprints (which otherwise stay as they were), and returns a child budget with
  \<open>max 0 d\<close> tokens, depth \<open>depth + 1\<close>, the nesting flag passed in, and the parent's run
  id, maximal depth, root start time and deadline.
\<close>

theorem reserve_child_success:
  assumes "reserveChildBudget b a t d allow_nested = (b', Inr c)"
  shows "remainingTokens b' = remainingTokens b - (1 + max 0 d)
       \<and> set (fingerprints b') = insert (toLowerCase (trim a) @ ''::'' @ normalizeTask t) (set (fingerprints b))
       \<and> c_remainingTokens c = max 0 d
       \<and> nextDepth c = depth b + 1
       \<and> c_canSpawnChildren c = allow_nested
       \<and> c_runId c = runId b
       \<and> c_maxDepth c = maxDepth b
       \<and> c_rootStartedAtMs c = rootStartedAtMs b
       \<and> c_deadlineAtMs c = deadlineAtMs b"
  using assms
  by (auto simp: reserveChildBudget_def Let_def set_has_def set_add_def makeFingerprint_def
           split: if_splits)


theorem reserve_child_success_witness:
  "reserveChildBudget
      \<lparr>runId = ''run-1'', depth = 0, maxDepth = 2, rootStartedAtMs = 1000,
        deadlineAtMs = 61000, remainingTokens = 4, fingerprints = [''scout::list files''],
        canSpawnChildren = True\<rparr>
      '' Worker '' ''  Analyze   API '' 2 True
    = (\<lparr>runId = ''run-1'', depth = 0, maxDepth = 2, rootStartedAtMs = 1000,
        deadlineAtMs = 61000, remainingTokens = 1,
        fingerprints = [''scout::list files'', ''worker::analyze api''],
        canSpawnChildren = True\<rparr>,
       Inr \<lparr>c_runId = ''run-1'', nextDepth = 1, c_maxDepth = 2, c_rootStartedAtMs = 1000,
            c_deadlineAtMs = 61000, c_remainingTokens = 2,
            c_fingerprints = [''scout::list files'', ''worker::analyze api''],
            c_canSpawnChildren = True\<rparr>)
   \<and> toLowerCase (trim '' Worker '') @ ''::'' @ normalizeTask ''  Analyze   API ''
       = ''worker::analyze api''
   \<and> (1::int) = 4 - (1 + max 0 2)"
proof -
  let ?b = "\<lparr>runId = ''run-1'', depth = 0, maxDepth = 2, rootStartedAtMs = 1000,
        deadlineAtMs = 61000, remainingTokens = 4, fingerprints = [''scout::list files''],
        canSpawnChildren = True\<rparr>"
  let ?b' = "\<lparr>runId = ''run-1'', depth = 0, maxDepth = 2, rootStartedAtMs = 1000,
        deadlineAtMs = 61000, remainingTokens = 1,
        fingerprints = [''scout::list files'', ''worker::analyze api''],
        canSpawnChildren = True\<rparr>"
  let ?c = "\<lparr>c_runId = ''run-1'', nextDepth = 1, c_maxDepth = 2, c_rootStartedAtMs = 1000,
            c_deadlineAtMs = 61000, c_remainingTokens = 2,
            c_fingerprints = [''scout::list files'', ''worker::analyze api''],
            c_canSpawnChildren = True\<rparr>"
  have run: "reserveChildBudget ?b '' Worker '' ''  Analyze   API '' 2 True = (?b', Inr ?c)"
    by code_simp
  have fp: "toLowerCase (trim '' Worker '') @ ''::'' @ normalizeTask ''  Analyze   API ''
              = ''worker::analyze api''"
    by code_simp
  from reserve_child_success[OF run]
  have "remainingTokens ?b' = remainingTokens ?b - (1 + max 0 2)"
    by (rule conjunct1)
  then have "(1::int) = 4 - (1 + max 0 2)" by simp
  with run fp show ?thesis by (intro conjI)
qed

lemma reserve_ok_fingerprints:
  assumes "reserveChildBudget b a t d n = (b', Inr c)"
  shows "makeFingerprint a t \<notin> set (fingerprints b)"
    and "set (fingerprints b') = insert (makeFingerprint a t) (set (fingerprints b))"
    and "c_fingerprints c = fingerprints b'"
  using assms
  by (auto simp: reserveChildBudget_def Let_def set_has_def set_add_def split: if_splits)

lemma reserve_error_unchanged:
  "reserveChildBudget b a t d n = (b', Inl e) \<Longrightarrow> b' = b"
  by (auto simp: reserveChildBudget_def Let_def split: if_splits)

lemma reserve_fingerprints_grow:
  "reserveChildBudget b a t d n = (b', r) \<Longrightarrow> set (fingerprints b) \<subseteq> set (fingerprints b')"
  by (cases r) (auto dest: reserve_error_unchanged reserve_ok_fingerprints(2))

lemma reserve_sequence_fingerprints:
  "reserve_sequence b reqs = (b', fps) \<Longrightarrow>
     distinct fps \<and> set fps \<inter> set (fingerprints b) = {}
     \<and> set (fingerprints b') = set (fingerprints b) \<union> set fps"
proof (induction reqs arbitrary: b b' fps)
  case Nil
  then show ?case by simp
next
  case (Cons req reqs)
  obtain a t d n where req: "req = (a, t, d, n)" by (cases req) auto
  obtain b1 r where step: "reserveChildBudget b a t d n = (b1, r)" by (cases "reserveChildBudget b a t d n") auto
  show ?case
  proof (cases r)
    case (Inl e)
    with step have "b1 = b" by (auto dest: reserve_error_unchanged)
    with Cons.prems req step Inl have "reserve_sequence b reqs = (b', fps)" by simp
    from Cons.IH[OF this] show ?thesis .
  next
    case (Inr c)
    obtain b2 fps2 where rest: "reserve_sequence b1 reqs = (b2, fps2)"
      by (cases "reserve_sequence b1 reqs") auto
    with Cons.prems req step Inr have eq: "b' = b2" "fps = makeFingerprint a t # fps2" by simp_all
    from step Inr have new: "makeFingerprint a t \<notin> set (fingerprints b)"
      and grown: "set (fingerprints b1) = insert (makeFingerprint a t) (set (fingerprints b))"
      by (auto dest: reserve_ok_fingerprints)
    from Cons.IH[OF rest] have ih: "distinct fps2" "set fps2 \<inter> set (fingerprints b1) = {}"
      "set (fingerprints b2) = set (fingerprints b1) \<union> set fps2" by simp_all
    from ih(2) grown have "makeFingerprint a t \<notin> set fps2" by auto
    with ih grown new eq show ?thesis by auto
  qed
qed

text \<open>
  C2, as the code has it. \<^verbatim>\<open>reserveChildBudget\<close> throws exactly when the fingerprint of
  the pair is already among the parent's fingerprints or the parent has fewer than
  \<open>1 + max 0 d\<close> tokens; when it throws, the parent budget is the one it was given. So among
  the reservations made on one budget the fingerprints of those that went through are
  pairwise different, and none was in the budget before.
\<close>

theorem reserve_child_throws_iff:
  "((\<exists>e. snd (reserveChildBudget b a t d n) = Inl e)
      \<longleftrightarrow> (makeFingerprint a t \<in> set (fingerprints b) \<or> remainingTokens b < 1 + max 0 d))
   \<and> ((\<exists>e. snd (reserveChildBudget b a t d n) = Inl e) \<longrightarrow> fst (reserveChildBudget b a t d n) = b)
   \<and> distinct (snd (reserve_sequence b reqs))
   \<and> set (snd (reserve_sequence b reqs)) \<inter> set (fingerprints b) = {}"
proof (intro conjI)
  show "(\<exists>e. snd (reserveChildBudget b a t d n) = Inl e)
      \<longleftrightarrow> (makeFingerprint a t \<in> set (fingerprints b) \<or> remainingTokens b < 1 + max 0 d)"
    by (auto simp: reserveChildBudget_def Let_def set_has_def split: if_splits)
  show "(\<exists>e. snd (reserveChildBudget b a t d n) = Inl e) \<longrightarrow> fst (reserveChildBudget b a t d n) = b"
    by (cases "reserveChildBudget b a t d n") (auto dest: reserve_error_unchanged)
  obtain b' fps where run: "reserve_sequence b reqs = (b', fps)"
    by (cases "reserve_sequence b reqs") auto
  from reserve_sequence_fingerprints[OF run] run
  show "distinct (snd (reserve_sequence b reqs))"
    and "set (snd (reserve_sequence b reqs)) \<inter> set (fingerprints b) = {}" by simp_all
qed

theorem reserve_child_throws_iff_witness:
  "snd (reserveChildBudget
      \<lparr>runId = ''run-1'', depth = 0, maxDepth = 2, rootStartedAtMs = 1000,
        deadlineAtMs = 61000, remainingTokens = 4, fingerprints = [''worker::repeat task''],
        canSpawnChildren = True\<rparr>
      ''worker'' ''  repeat   task '' 0 True) = Inl (LoopBlocked ''worker'')
   \<and> fst (reserveChildBudget
      \<lparr>runId = ''run-1'', depth = 0, maxDepth = 2, rootStartedAtMs = 1000,
        deadlineAtMs = 61000, remainingTokens = 4, fingerprints = [''worker::repeat task''],
        canSpawnChildren = True\<rparr>
      ''worker'' ''  repeat   task '' 0 True)
     = \<lparr>runId = ''run-1'', depth = 0, maxDepth = 2, rootStartedAtMs = 1000,
        deadlineAtMs = 61000, remainingTokens = 4, fingerprints = [''worker::repeat task''],
        canSpawnChildren = True\<rparr>
   \<and> snd (reserve_sequence
      \<lparr>runId = ''run-1'', depth = 0, maxDepth = 2, rootStartedAtMs = 1000,
        deadlineAtMs = 61000, remainingTokens = 4, fingerprints = [''worker::repeat task''],
        canSpawnChildren = True\<rparr>
      [(''scout'', ''List files'', 0, False), (''worker'', ''Repeat task'', 0, True),
       (''Scout '', ''list   FILES'', 0, False), (''worker'', ''build'', 5, True)])
     = [''scout::list files'']"
proof -
  let ?b = "\<lparr>runId = ''run-1'', depth = 0, maxDepth = 2, rootStartedAtMs = 1000,
        deadlineAtMs = 61000, remainingTokens = 4, fingerprints = [''worker::repeat task''],
        canSpawnChildren = True\<rparr>"
  have thrown: "snd (reserveChildBudget ?b ''worker'' ''  repeat   task '' 0 True) = Inl (LoopBlocked ''worker'')"
    by code_simp
  have seq: "snd (reserve_sequence ?b
      [(''scout'', ''List files'', 0, False), (''worker'', ''Repeat task'', 0, True),
       (''Scout '', ''list   FILES'', 0, False), (''worker'', ''build'', 5, True)])
     = [''scout::list files'']"
    by code_simp
  from thrown reserve_child_throws_iff[of ?b "''worker''" "''  repeat   task ''" 0 True "[]"]
  have "fst (reserveChildBudget ?b ''worker'' ''  repeat   task '' 0 True) = ?b"
    by blast
  with thrown seq show ?thesis by simp
qed

text \<open>
  The last sentence of the claim fails for a whole run. A child's budget holds the
  fingerprints its parent had when the child was spawned and nothing flows back: after
  the parent has spawned child A (scout, do x) it reserves (worker, do y), and child A,
  on the budget it built from its environment, reserves (worker, do y) as well. Both
  reservations go through, both under run id \<^verbatim>\<open>run-1\<close>.
\<close>

theorem run_wide_fingerprint_counterexample:
  "reserveChildBudget
      \<lparr>runId = ''run-1'', depth = 0, maxDepth = 2, rootStartedAtMs = 1000,
        deadlineAtMs = 61000, remainingTokens = 4, fingerprints = [],
        canSpawnChildren = True\<rparr>
      ''scout'' ''do x'' 1 True
    = (\<lparr>runId = ''run-1'', depth = 0, maxDepth = 2, rootStartedAtMs = 1000,
         deadlineAtMs = 61000, remainingTokens = 2, fingerprints = [''scout::do x''],
         canSpawnChildren = True\<rparr>,
       Inr \<lparr>c_runId = ''run-1'', nextDepth = 1, c_maxDepth = 2, c_rootStartedAtMs = 1000,
            c_deadlineAtMs = 61000, c_remainingTokens = 1, c_fingerprints = [''scout::do x''],
            c_canSpawnChildren = True\<rparr>)
   \<and> snd (reserveChildBudget
          \<lparr>runId = ''run-1'', depth = 0, maxDepth = 2, rootStartedAtMs = 1000,
            deadlineAtMs = 61000, remainingTokens = 2, fingerprints = [''scout::do x''],
            canSpawnChildren = True\<rparr>
          ''worker'' ''do y'' 0 False)
     = Inr \<lparr>c_runId = ''run-1'', nextDepth = 1, c_maxDepth = 2, c_rootStartedAtMs = 1000,
            c_deadlineAtMs = 61000, c_remainingTokens = 0,
            c_fingerprints = [''scout::do x'', ''worker::do y''], c_canSpawnChildren = False\<rparr>
   \<and> snd (reserveChildBudget
          (initializeExecutionBudget
             (childEnv \<lparr>c_runId = ''run-1'', nextDepth = 1, c_maxDepth = 2,
                         c_rootStartedAtMs = 1000, c_deadlineAtMs = 61000, c_remainingTokens = 1,
                         c_fingerprints = [''scout::do x''], c_canSpawnChildren = True\<rparr>)
             3000 DEFAULT_GUARDRAIL_DEFAULTS ''fresh'')
          ''worker'' ''do y'' 0 False)
     = Inr \<lparr>c_runId = ''run-1'', nextDepth = 2, c_maxDepth = 2, c_rootStartedAtMs = 1000,
            c_deadlineAtMs = 61000, c_remainingTokens = 0,
            c_fingerprints = [''scout::do x'', ''worker::do y''], c_canSpawnChildren = False\<rparr>"
  by code_simp

section \<open>Fingerprints across processes\<close>

lemma trim_empty_iff: "trim s = [] \<longleftrightarrow> (\<forall>c\<in>set s. is_space c)"
proof
  assume "trim s = []"
  then have all_rest: "\<forall>c\<in>set (dropWhile is_space s). is_space c"
    by (simp add: trim_def dropWhile_eq_Nil_conv)
  have "dropWhile is_space s = []"
  proof (rule ccontr)
    assume ne: "dropWhile is_space s \<noteq> []"
    then have "\<not> is_space (hd (dropWhile is_space s))" by (rule hd_dropWhile)
    moreover from ne have "hd (dropWhile is_space s) \<in> set (dropWhile is_space s)" by simp
    ultimately show False using all_rest by blast
  qed
  then show "\<forall>c\<in>set s. is_space c" by (simp add: dropWhile_eq_Nil_conv)
next
  assume "\<forall>c\<in>set s. is_space c"
  then show "trim s = []"
    by (auto simp: trim_def dropWhile_eq_Nil_conv dest: set_dropWhileD)
qed

lemma fingerprint_not_blank: "trim (makeFingerprint a t) \<noteq> []"
proof -
  have "CHR '':'' \<in> set (makeFingerprint a t)" by (simp add: makeFingerprint_def)
  moreover have "\<not> is_space CHR '':''" by (simp add: is_space_def)
  ultimately show ?thesis unfolding trim_empty_iff by blast
qed

lemma parse_fold_set:
  "set (foldl (\<lambda>out item. case item of
                 JString s \<Rightarrow> if trim s \<noteq> [] then set_add out s else out
               | _ \<Rightarrow> out) acc (map JString xs))
     = set acc \<union> {s \<in> set xs. trim s \<noteq> []}"
  by (induction xs arbitrary: acc) (auto simp: set_add_def)

lemma child_fingerprints_parsed:
  "set (fingerprints (initializeExecutionBudget (childEnv c) nowMs defaults rid))
     = {s \<in> set (c_fingerprints c). trim s \<noteq> []}"
  by (simp add: initializeExecutionBudget_def childEnv_def parseFingerprintSet_def Let_def
        parse_fold_set)

lemma in_subtree_keeps:
  "in_subtree c x \<Longrightarrow> {s \<in> set (c_fingerprints c). trim s \<noteq> []} \<subseteq> set (fingerprints x)"
proof (induction rule: in_subtree.induct)
  case (subtree_root nowMs defaults rid)
  show ?case by (simp add: child_fingerprints_parsed)
next
  case (subtree_reserve x a t d n x' r)
  from subtree_reserve.hyps(2) have "set (fingerprints x) \<subseteq> set (fingerprints x')"
    by (rule reserve_fingerprints_grow)
  with subtree_reserve.IH show ?case by blast
next
  case (subtree_spawn x a t d n x' c' nowMs defaults rid)
  from subtree_spawn.hyps(2) have "set (fingerprints x) \<subseteq> set (fingerprints x')"
    and "c_fingerprints c' = fingerprints x'"
    by (auto dest: reserve_fingerprints_grow reserve_ok_fingerprints(3))
  with subtree_spawn.IH show ?case
    unfolding child_fingerprints_parsed by auto
qed

text \<open>
  C9. The child budget a successful \<^verbatim>\<open>reserveChildBudget\<close> returns lists the fingerprint
  of the child's own pair along with every fingerprint the parent had. So every process
  of the child's subtree, which builds its budget from the environment it was given,
  is refused (loop blocked) when it tries to reserve the same pair.
\<close>

theorem child_budget_blocks_repeat:
  assumes reserved: "reserveChildBudget b a t d n = (b', Inr c)"
    and below: "in_subtree c x"
  shows "set (c_fingerprints c) = insert (makeFingerprint a t) (set (fingerprints b))
       \<and> reserveChildBudget x a t d' n' = (x, Inl (LoopBlocked a))"
proof
  show own: "set (c_fingerprints c) = insert (makeFingerprint a t) (set (fingerprints b))"
    using reserve_ok_fingerprints(2,3)[OF reserved] by simp
  then have "makeFingerprint a t \<in> {s \<in> set (c_fingerprints c). trim s \<noteq> []}"
    by (simp add: fingerprint_not_blank)
  with in_subtree_keeps[OF below] have "makeFingerprint a t \<in> set (fingerprints x)"
    by blast
  then show "reserveChildBudget x a t d' n' = (x, Inl (LoopBlocked a))"
    by (simp add: reserveChildBudget_def set_has_def)
qed

theorem child_budget_blocks_repeat_witness:
  "reserveChildBudget
      \<lparr>runId = ''run-1'', depth = 0, maxDepth = 3, rootStartedAtMs = 1000,
        deadlineAtMs = 61000, remainingTokens = 4, fingerprints = [''scout::list files''],
        canSpawnChildren = True\<rparr>
      ''worker'' ''analyze api'' 2 True
    = (\<lparr>runId = ''run-1'', depth = 0, maxDepth = 3, rootStartedAtMs = 1000,
        deadlineAtMs = 61000, remainingTokens = 1,
        fingerprints = [''scout::list files'', ''worker::analyze api''],
        canSpawnChildren = True\<rparr>,
       Inr \<lparr>c_runId = ''run-1'', nextDepth = 1, c_maxDepth = 3, c_rootStartedAtMs = 1000,
            c_deadlineAtMs = 61000, c_remainingTokens = 2,
            c_fingerprints = [''scout::list files'', ''worker::analyze api''],
            c_canSpawnChildren = True\<rparr>)
   \<and> in_subtree
        \<lparr>c_runId = ''run-1'', nextDepth = 1, c_maxDepth = 3, c_rootStartedAtMs = 1000,
          c_deadlineAtMs = 61000, c_remainingTokens = 2,
          c_fingerprints = [''scout::list files'', ''worker::analyze api''],
          c_canSpawnChildren = True\<rparr>
        (initializeExecutionBudget
           (childEnv \<lparr>c_runId = ''run-1'', nextDepth = 2, c_maxDepth = 3,
                       c_rootStartedAtMs = 1000, c_deadlineAtMs = 61000, c_remainingTokens = 0,
                       c_fingerprints = [''scout::list files'', ''worker::analyze api'',
                                         ''helper::check it''],
                       c_canSpawnChildren = False\<rparr>)
           6000 DEFAULT_GUARDRAIL_DEFAULTS ''fresh2'')
   \<and> reserveChildBudget
        (initializeExecutionBudget
           (childEnv \<lparr>c_runId = ''run-1'', nextDepth = 2, c_maxDepth = 3,
                       c_rootStartedAtMs = 1000, c_deadlineAtMs = 61000, c_remainingTokens = 0,
                       c_fingerprints = [''scout::list files'', ''worker::analyze api'',
                                         ''helper::check it''],
                       c_canSpawnChildren = False\<rparr>)
           6000 DEFAULT_GUARDRAIL_DEFAULTS ''fresh2'')
        ''worker'' ''analyze api'' 1 True
      = (initializeExecutionBudget
           (childEnv \<lparr>c_runId = ''run-1'', nextDepth = 2, c_maxDepth = 3,
                       c_rootStartedAtMs = 1000, c_deadlineAtMs = 61000, c_remainingTokens = 0,
                       c_fingerprints = [''scout::list files'', ''worker::analyze api'',
                                         ''helper::check it''],
                       c_canSpawnChildren = False\<rparr>)
           6000 DEFAULT_GUARDRAIL_DEFAULTS ''fresh2'',
         Inl (LoopBlocked ''worker''))"
proof -
  let ?b = "\<lparr>runId = ''run-1'', depth = 0, maxDepth = 3, rootStartedAtMs = 1000,
        deadlineAtMs = 61000, remainingTokens = 4, fingerprints = [''scout::list files''],
        canSpawnChildren = True\<rparr>"
  let ?b' = "\<lparr>runId = ''run-1'', depth = 0, maxDepth = 3, rootStartedAtMs = 1000,
        deadlineAtMs = 61000, remainingTokens = 1,
        fingerprints = [''scout::list files'', ''worker::analyze api''],
        canSpawnChildren = True\<rparr>"
  let ?c = "\<lparr>c_runId = ''run-1'', nextDepth = 1, c_maxDepth = 3, c_rootStartedAtMs = 1000,
            c_deadlineAtMs = 61000, c_remainingTokens = 2,
            c_fingerprints = [''scout::list files'', ''worker::analyze api''],
            c_canSpawnChildren = True\<rparr>"
  let ?x1 = "initializeExecutionBudget (childEnv ?c) 5000 DEFAULT_GUARDRAIL_DEFAULTS ''fresh1''"
  let ?x1' = "\<lparr>runId = ''run-1'', depth = 1, maxDepth = 3, rootStartedAtMs = 1000,
        deadlineAtMs = 61000, remainingTokens = 1,
        fingerprints = [''scout::list files'', ''worker::analyze api'', ''helper::check it''],
        canSpawnChildren = True\<rparr>"
  let ?c2 = "\<lparr>c_runId = ''run-1'', nextDepth = 2, c_maxDepth = 3,
                       c_rootStartedAtMs = 1000, c_deadlineAtMs = 61000, c_remainingTokens = 0,
                       c_fingerprints = [''scout::list files'', ''worker::analyze api'',
                                         ''helper::check it''],
                       c_canSpawnChildren = False\<rparr>"
  let ?x = "initializeExecutionBudget (childEnv ?c2) 6000 DEFAULT_GUARDRAIL_DEFAULTS ''fresh2''"
  have parent: "reserveChildBudget ?b ''worker'' ''analyze api'' 2 True = (?b', Inr ?c)"
    by code_simp
  have child: "reserveChildBudget ?x1 ''helper'' ''Check it'' 0 False = (?x1', Inr ?c2)"
    by code_simp
  have "in_subtree ?c ?x1" by (rule subtree_root)
  from this child have grandchild: "in_subtree ?c ?x" by (rule subtree_spawn)
  from child_budget_blocks_repeat[OF parent grandchild, of 1 True]
  have "reserveChildBudget ?x ''worker'' ''analyze api'' 1 True = (?x, Inl (LoopBlocked ''worker''))"
    by (rule conjunct2)
  with parent grandchild show ?thesis by (intro conjI)
qed

section \<open>Plan conversion\<close>

text \<open>
  C7. Under policy auto with recommended mode parallel, a requested chain none of whose
  steps contains \<^verbatim>\<open>{previous}\<close> becomes a parallel plan over the same items exactly when
  it has more than one step; a chain with a \<^verbatim>\<open>{previous}\<close> step, or with at most one
  step, stays the chain it was (with the note that no safe conversion exists).
\<close>

theorem chain_to_parallel_iff:
  assumes "policy input = Auto"
    and "recommendedMode input = ModeParallel"
    and "requestedMode input = ModeChain"
  shows "(\<not> (\<exists>s\<in>set (or_empty (in_chain input)). containsPrevious (task s)) \<longrightarrow>
            (plan_mode (buildExecutionPlan input) = ModeParallel
               \<longleftrightarrow> length (or_empty (in_chain input)) > 1)
          \<and> (length (or_empty (in_chain input)) > 1 \<longrightarrow>
               plan_tasks (buildExecutionPlan input) = Some (or_empty (in_chain input))))
       \<and> ((\<exists>s\<in>set (or_empty (in_chain input)). containsPrevious (task s))
            \<or> length (or_empty (in_chain input)) \<le> 1 \<longrightarrow>
            plan_mode (buildExecutionPlan input) = ModeChain
          \<and> plan_chain (buildExecutionPlan input) = Some (or_empty (in_chain input))
          \<and> plan_notes (buildExecutionPlan input) = [no_safe_conversion_note])"
proof -
  let ?steps = "or_empty (in_chain input)"
  let ?dep = "list_ex (\<lambda>item. containsPrevious (task item)) ?steps"
  have dep: "?dep \<longleftrightarrow> (\<exists>s\<in>set ?steps. containsPrevious (task s))"
    by (simp add: list_ex_iff)
  show ?thesis
  proof (cases "\<not> ?dep \<and> length ?steps > 1")
    case True
    with assms have "buildExecutionPlan input =
        \<lparr>plan_mode = ModeParallel, plan_single = None, plan_tasks = Some ?steps,
          plan_chain = None,
          plan_notes = [''auto mode: switched chain -> parallel (no {previous} dependencies)'']\<rparr>"
      by (simp add: buildExecutionPlan_def normalizeRequestedPlan_def Let_def or_empty_def)
    with True dep show ?thesis by simp
  next
    case False
    with assms have "buildExecutionPlan input =
        \<lparr>plan_mode = ModeChain, plan_single = None, plan_tasks = None,
          plan_chain = Some ?steps, plan_notes = [no_safe_conversion_note]\<rparr>"
      by (simp add: buildExecutionPlan_def normalizeRequestedPlan_def Let_def or_empty_def)
    with False dep show ?thesis by auto
  qed
qed

theorem chain_to_parallel_iff_witness:
  "plan_mode (buildExecutionPlan
      \<lparr>requestedMode = ModeChain, policy = Auto, recommendedMode = ModeParallel,
        in_single = None, in_tasks = None,
        in_chain = Some [\<lparr>agent = ''scout'', task = ''Collect facts'', cwd = None\<rparr>,
                         \<lparr>agent = ''worker'', task = ''Implement using {previous}'', cwd = None\<rparr>]\<rparr>)
     = ModeChain
   \<and> plan_notes (buildExecutionPlan
      \<lparr>requestedMode = ModeChain, policy = Auto, recommendedMode = ModeParallel,
        in_single = None, in_tasks = None,
        in_chain = Some [\<lparr>agent = ''scout'', task = ''Collect facts'', cwd = None\<rparr>,
                         \<lparr>agent = ''worker'', task = ''Implement using {previous}'', cwd = None\<rparr>]\<rparr>)
     = [no_safe_conversion_note]
   \<and> plan_mode (buildExecutionPlan
      \<lparr>requestedMode = ModeChain, policy = Auto, recommendedMode = ModeParallel,
        in_single = None, in_tasks = None,
        in_chain = Some [\<lparr>agent = ''scout'', task = ''Collect facts'', cwd = None\<rparr>,
                         \<lparr>agent = ''worker'', task = ''Implement the plan'', cwd = None\<rparr>]\<rparr>)
     = ModeParallel"
proof -
  let ?dep = "\<lparr>requestedMode = ModeChain, policy = Auto, recommendedMode = ModeParallel,
        in_single = None, in_tasks = None,
        in_chain = Some [\<lparr>agent = ''scout'', task = ''Collect facts'', cwd = None\<rparr>,
                         \<lparr>agent = ''worker'', task = ''Implement using {previous}'', cwd = None\<rparr>]\<rparr>"
  let ?free = "\<lparr>requestedMode = ModeChain, policy = Auto, recommendedMode = ModeParallel,
        in_single = None, in_tasks = None,
        in_chain = Some [\<lparr>agent = ''scout'', task = ''Collect facts'', cwd = None\<rparr>,
                         \<lparr>agent = ''worker'', task = ''Implement the plan'', cwd = None\<rparr>]\<rparr>"
  have has_dep: "\<exists>s\<in>set (or_empty (in_chain ?dep)). containsPrevious (task s)"
    by (simp add: or_empty_def containsPrevious_def)
  have no_dep: "\<not> (\<exists>s\<in>set (or_empty (in_chain ?free)). containsPrevious (task s))"
    by (simp add: or_empty_def containsPrevious_def)
  have long: "length (or_empty (in_chain ?free)) > 1"
    by (simp add: or_empty_def)
  from chain_to_parallel_iff[of ?dep] has_dep
  have kept: "plan_mode (buildExecutionPlan ?dep) = ModeChain
            \<and> plan_notes (buildExecutionPlan ?dep) = [no_safe_conversion_note]"
    by simp
  from chain_to_parallel_iff[of ?free] no_dep long
  have "plan_mode (buildExecutionPlan ?free) = ModeParallel"
    by simp
  with kept show ?thesis by simp
qed

text \<open>
  C3, as the code has it. Under policy auto with recommended mode single, a requested
  chain becomes a single plan exactly when it has one step and that step's text does not
  contain \<^verbatim>\<open>{previous}\<close>; a requested parallel plan becomes a single plan exactly when it
  has one task, whatever the text of that task. In every other case the requested plan is
  kept, with the note that no safe conversion exists.
\<close>

theorem to_single_conversion:
  assumes "policy input = Auto"
    and "recommendedMode input = ModeSingle"
  shows "(requestedMode input = ModeChain \<longrightarrow>
            buildExecutionPlan input =
              (if length (or_empty (in_chain input)) = 1
                  \<and> \<not> containsPrevious (task (hd (or_empty (in_chain input))))
               then \<lparr>plan_mode = ModeSingle, plan_single = Some (hd (or_empty (in_chain input))),
                     plan_tasks = None, plan_chain = None,
                     plan_notes = [''auto mode: switched chain -> single (single independent step)'']\<rparr>
               else \<lparr>plan_mode = ModeChain, plan_single = None, plan_tasks = None,
                     plan_chain = Some (or_empty (in_chain input)),
                     plan_notes = [no_safe_conversion_note]\<rparr>))
       \<and> (requestedMode input = ModeParallel \<longrightarrow>
            buildExecutionPlan input =
              (if length (or_empty (in_tasks input)) = 1
               then \<lparr>plan_mode = ModeSingle, plan_single = Some (hd (or_empty (in_tasks input))),
                     plan_tasks = None, plan_chain = None,
                     plan_notes = [''auto mode: switched parallel -> single (single task)'']\<rparr>
               else \<lparr>plan_mode = ModeParallel, plan_single = None,
                     plan_tasks = Some (or_empty (in_tasks input)), plan_chain = None,
                     plan_notes = [no_safe_conversion_note]\<rparr>))"
proof (intro conjI impI)
  assume "requestedMode input = ModeChain"
  with assms show "buildExecutionPlan input =
              (if length (or_empty (in_chain input)) = 1
                  \<and> \<not> containsPrevious (task (hd (or_empty (in_chain input))))
               then \<lparr>plan_mode = ModeSingle, plan_single = Some (hd (or_empty (in_chain input))),
                     plan_tasks = None, plan_chain = None,
                     plan_notes = [''auto mode: switched chain -> single (single independent step)'']\<rparr>
               else \<lparr>plan_mode = ModeChain, plan_single = None, plan_tasks = None,
                     plan_chain = Some (or_empty (in_chain input)),
                     plan_notes = [no_safe_conversion_note]\<rparr>)"
    by (simp add: buildExecutionPlan_def normalizeRequestedPlan_def Let_def or_empty_def)
next
  assume "requestedMode input = ModeParallel"
  with assms show "buildExecutionPlan input =
              (if length (or_empty (in_tasks input)) = 1
               then \<lparr>plan_mode = ModeSingle, plan_single = Some (hd (or_empty (in_tasks input))),
                     plan_tasks = None, plan_chain = None,
                     plan_notes = [''auto mode: switched parallel -> single (single task)'']\<rparr>
               else \<lparr>plan_mode = ModeParallel, plan_single = None,
                     plan_tasks = Some (or_empty (in_tasks input)), plan_chain = None,
                     plan_notes = [no_safe_conversion_note]\<rparr>)"
    by (simp add: buildExecutionPlan_def normalizeRequestedPlan_def Let_def or_empty_def)
qed

theorem to_single_conversion_witness:
  "buildExecutionPlan
      \<lparr>requestedMode = ModeChain, policy = Auto, recommendedMode = ModeSingle,
        in_single = None, in_tasks = None,
        in_chain = Some [\<lparr>agent = ''worker'', task = ''Implement using {previous}'', cwd = None\<rparr>]\<rparr>
     = \<lparr>plan_mode = ModeChain, plan_single = None, plan_tasks = None,
        plan_chain = Some [\<lparr>agent = ''worker'', task = ''Implement using {previous}'', cwd = None\<rparr>],
        plan_notes = [no_safe_conversion_note]\<rparr>
   \<and> buildExecutionPlan
      \<lparr>requestedMode = ModeParallel, policy = Auto, recommendedMode = ModeSingle,
        in_single = None,
        in_tasks = Some [\<lparr>agent = ''scout'', task = ''List files'', cwd = None\<rparr>],
        in_chain = None\<rparr>
     = \<lparr>plan_mode = ModeSingle,
        plan_single = Some \<lparr>agent = ''scout'', task = ''List files'', cwd = None\<rparr>,
        plan_tasks = None, plan_chain = None,
        plan_notes = [''auto mode: switched parallel -> single (single task)'']\<rparr>"
proof -
  let ?c = "\<lparr>requestedMode = ModeChain, policy = Auto, recommendedMode = ModeSingle,
        in_single = None, in_tasks = None,
        in_chain = Some [\<lparr>agent = ''worker'', task = ''Implement using {previous}'', cwd = None\<rparr>]\<rparr>"
  let ?p = "\<lparr>requestedMode = ModeParallel, policy = Auto, recommendedMode = ModeSingle,
        in_single = None,
        in_tasks = Some [\<lparr>agent = ''scout'', task = ''List files'', cwd = None\<rparr>],
        in_chain = None\<rparr>"
  have dep: "containsPrevious ''Implement using {previous}''"
    by (simp add: containsPrevious_def)
  from to_single_conversion[of ?c] dep
  have kept: "buildExecutionPlan ?c =
      \<lparr>plan_mode = ModeChain, plan_single = None, plan_tasks = None,
        plan_chain = Some [\<lparr>agent = ''worker'', task = ''Implement using {previous}'', cwd = None\<rparr>],
        plan_notes = [no_safe_conversion_note]\<rparr>"
    by (simp add: or_empty_def)
  from to_single_conversion[of ?p]
  have "buildExecutionPlan ?p =
      \<lparr>plan_mode = ModeSingle,
        plan_single = Some \<lparr>agent = ''scout'', task = ''List files'', cwd = None\<rparr>,
        plan_tasks = None, plan_chain = None,
        plan_notes = [''auto mode: switched parallel -> single (single task)'']\<rparr>"
    by (simp add: or_empty_def)
  with kept show ?thesis by (intro conjI)
qed

text \<open>
  The claim as written fails for a requested parallel plan: its single task is moved to
  a single plan although the text contains \<^verbatim>\<open>{previous}\<close>.
\<close>

theorem to_single_counterexample:
  "\<not> (plan_mode (buildExecutionPlan
          \<lparr>requestedMode = ModeParallel, policy = Auto, recommendedMode = ModeSingle,
            in_single = None,
            in_tasks = Some [\<lparr>agent = ''worker'', task = ''Implement using {previous}'', cwd = None\<rparr>],
            in_chain = None\<rparr>) = ModeSingle
        \<longrightarrow> \<not> containsPrevious ''Implement using {previous}'')"
  by (simp add: buildExecutionPlan_def normalizeRequestedPlan_def Let_def or_empty_def
        containsPrevious_def)

section \<open>Isolation decision\<close>

lemma starts_with_map: "starts_with s p \<Longrightarrow> starts_with (map f s) (map f p)"
  by (induction s p rule: starts_with.induct) auto

lemma str_includes_map: "str_includes s p \<Longrightarrow> str_includes (map f s) (map f p)"
proof (induction s)
  case Nil
  then show ?case using starts_with_map[of "[]" p f] by simp
next
  case (Cons c cs)
  then show ?case using starts_with_map[of "c # cs" p f] by auto
qed

lemma write_keywords_lower_case:
  "kw \<in> set WRITE_TASK_KEYWORDS \<Longrightarrow> toLowerCase kw = kw"
  by (auto simp: WRITE_TASK_KEYWORDS_def toLowerCase_def lower_char_def)

lemma keyword_gives_write_intent:
  assumes "kw \<in> set WRITE_TASK_KEYWORDS"
    and "str_includes t kw \<or> str_includes (toLowerCase t) kw"
  shows "isWriteIntent t"
proof -
  from assms(2) have "str_includes (toLowerCase t) kw"
  proof
    assume "str_includes t kw"
    then have "str_includes (toLowerCase t) (toLowerCase kw)"
      unfolding toLowerCase_def by (rule str_includes_map)
    with assms(1) show ?thesis by (simp add: write_keywords_lower_case)
  qed
  with assms(1) show ?thesis
    by (auto simp: isWriteIntent_def Let_def list_ex_iff)
qed

text \<open>
  C10. In the auto isolation decision an agent with no declared tools (none, or an empty
  list) counts as write-capable: a chain with at least one such agent runs in a worktree,
  and so does a single task whose text contains a write keyword (in any letter case) and
  whose agent has no declared tools.
\<close>

theorem undeclared_tools_write_capable:
  "isWriteCapable None \<and> isWriteCapable (Some [])
   \<and> (requestedIsolation input = IsolationAuto \<and> iso_mode input = ModeChain
        \<and> (\<exists>t\<in>set (or_empty (iso_chain input)). agentTools t = None \<or> agentTools t = Some [])
      \<longrightarrow> selectedIsolation (decideExecutionIsolation input) = Worktree)
   \<and> (requestedIsolation input = IsolationAuto \<and> iso_mode input = ModeSingle
        \<and> iso_single input = Some t
        \<and> (\<exists>kw\<in>set WRITE_TASK_KEYWORDS.
              str_includes (iso_task t) kw \<or> str_includes (toLowerCase (iso_task t)) kw)
        \<and> (agentTools t = None \<or> agentTools t = Some [])
      \<longrightarrow> selectedIsolation (decideExecutionIsolation input) = Worktree)"
proof (intro conjI impI)
  show none: "isWriteCapable None" and empty: "isWriteCapable (Some [])"
    by (simp_all add: isWriteCapable_def)
next
  assume a: "requestedIsolation input = IsolationAuto \<and> iso_mode input = ModeChain
        \<and> (\<exists>t\<in>set (or_empty (iso_chain input)). agentTools t = None \<or> agentTools t = Some [])"
  then obtain u where u: "u \<in> set (or_empty (iso_chain input))"
    and "agentTools u = None \<or> agentTools u = Some []" by blast
  then have "isWriteCapable (agentTools u)" by (auto simp: isWriteCapable_def)
  with u have "list_ex (\<lambda>t. isWriteCapable (agentTools t)) (extractIsolationTasks input)"
    using a by (auto simp: extractIsolationTasks_def list_ex_iff)
  with a show "selectedIsolation (decideExecutionIsolation input) = Worktree"
    by (simp add: decideExecutionIsolation_def Let_def)
next
  assume a: "requestedIsolation input = IsolationAuto \<and> iso_mode input = ModeSingle
        \<and> iso_single input = Some t
        \<and> (\<exists>kw\<in>set WRITE_TASK_KEYWORDS.
              str_includes (iso_task t) kw \<or> str_includes (toLowerCase (iso_task t)) kw)
        \<and> (agentTools t = None \<or> agentTools t = Some [])"
  then have tasks: "extractIsolationTasks input = [t]"
    by (simp add: extractIsolationTasks_def)
  from a have "isWriteIntent (iso_task t)"
    by (blast intro: keyword_gives_write_intent)
  moreover from a have "isWriteCapable (agentTools t)"
    by (auto simp: isWriteCapable_def)
  ultimately show "selectedIsolation (decideExecutionIsolation input) = Worktree"
    using a tasks by (simp add: decideExecutionIsolation_def Let_def)
qed

theorem undeclared_tools_write_capable_witness:
  "selectedIsolation (decideExecutionIsolation
      \<lparr>requestedIsolation = IsolationAuto, iso_mode = ModeChain, iso_single = None,
        iso_tasks = None,
        iso_chain = Some [\<lparr>iso_task = ''List files'', iso_agent = Some ''scout'',
                            agentTools = Some [''read'', ''grep'']\<rparr>,
                          \<lparr>iso_task = ''Summarize them'', iso_agent = Some ''helper'',
                            agentTools = None\<rparr>]\<rparr>) = Worktree
   \<and> selectedIsolation (decideExecutionIsolation
      \<lparr>requestedIsolation = IsolationAuto, iso_mode = ModeSingle,
        iso_single = Some \<lparr>iso_task = ''Fix the parser'', iso_agent = Some ''helper'',
                            agentTools = Some []\<rparr>,
        iso_tasks = None, iso_chain = None\<rparr>) = Worktree"
proof -
  let ?c = "\<lparr>requestedIsolation = IsolationAuto, iso_mode = ModeChain, iso_single = None,
        iso_tasks = None,
        iso_chain = Some [\<lparr>iso_task = ''List files'', iso_agent = Some ''scout'',
                            agentTools = Some [''read'', ''grep'']\<rparr>,
                          \<lparr>iso_task = ''Summarize them'', iso_agent = Some ''helper'',
                            agentTools = None\<rparr>]\<rparr>"
  let ?t = "\<lparr>iso_task = ''Fix the parser'', iso_agent = Some ''helper'', agentTools = Some []\<rparr>"
  let ?s = "\<lparr>requestedIsolation = IsolationAuto, iso_mode = ModeSingle, iso_single = Some ?t,
        iso_tasks = None, iso_chain = None\<rparr>"
  have hc: "requestedIsolation ?c = IsolationAuto \<and> iso_mode ?c = ModeChain
        \<and> (\<exists>t\<in>set (or_empty (iso_chain ?c)). agentTools t = None \<or> agentTools t = Some [])"
    by (simp add: or_empty_def)
  have kw: "''fix'' \<in> set WRITE_TASK_KEYWORDS" by (simp add: WRITE_TASK_KEYWORDS_def)
  have inc: "str_includes (toLowerCase (iso_task ?t)) ''fix''"
    by code_simp
  from kw inc have hs: "requestedIsolation ?s = IsolationAuto \<and> iso_mode ?s = ModeSingle
        \<and> iso_single ?s = Some ?t
        \<and> (\<exists>kw\<in>set WRITE_TASK_KEYWORDS.
              str_includes (iso_task ?t) kw \<or> str_includes (toLowerCase (iso_task ?t)) kw)
        \<and> (agentTools ?t = None \<or> agentTools ?t = Some [])"
    by (intro conjI; simp?) blast
  from undeclared_tools_write_capable[of ?c] hc
  have c: "selectedIsolation (decideExecutionIsolation ?c) = Worktree" by blast
  from undeclared_tools_write_capable[of ?s ?t] hs
  have "selectedIsolation (decideExecutionIsolation ?s) = Worktree" by blast
  with c show ?thesis by (intro conjI)
qed

section \<open>Ledger reads and the isolated mode\<close>

lemma run_entries_run_id: "e \<in> set (run_entries rid led) \<Longrightarrow> entry_runId e = rid"
  by (induction rid led rule: run_entries.induct) (auto split: if_splits)

lemma run_entries_subseq: "subseq (map EntryLine (run_entries rid led)) led"
  by (induction rid led rule: run_entries.induct) auto

lemma slice_last_suffix: "suffix (slice_last xs k) xs"
  by (simp add: slice_last_def suffix_drop)

lemma slice_last_length: "1 \<le> k \<Longrightarrow> length (slice_last xs k) = min (length xs) (nat k)"
  by (auto simp: slice_last_def)

text \<open>
  C6. A ledger read with limit \<open>N\<close> returns only entries of the store's run, in the
  order of the file: the last \<open>min n (clamp N 1 100)\<close> of the \<open>n\<close> entries of that run
  (none when the file cannot be read, and none from the no-op store).
\<close>

theorem read_recent_entries:
  "(\<forall>e\<in>set (readRecent (FileStore path rid) io_ok file limit). entry_runId e = rid)
   \<and> suffix (readRecent (FileStore path rid) io_ok file limit) (run_entries rid file)
   \<and> subseq (map EntryLine (readRecent (FileStore path rid) io_ok file limit)) file
   \<and> int (length (readRecent (FileStore path rid) io_ok file limit)) \<le> max 1 (min 100 limit)
   \<and> (io_ok \<longrightarrow> length (readRecent (FileStore path rid) io_ok file limit)
                    = min (length (run_entries rid file)) (nat (max 1 (min 100 limit))))
   \<and> readRecent NoopStore io_ok file limit = []"
proof -
  let ?k = "max 1 (min 100 limit)"
  let ?r = "readRecent (FileStore path rid) io_ok file limit"
  have k: "1 \<le> ?k" by simp
  have r: "?r = (if io_ok then slice_last (run_entries rid file) ?k else [])"
    by (simp add: readRecent_def Let_def)
  have suf: "suffix ?r (run_entries rid file)"
    unfolding r by (simp add: slice_last_suffix)
  then have sub: "set ?r \<subseteq> set (run_entries rid file)"
    by (rule set_mono_suffix)
  have ids: "\<forall>e\<in>set ?r. entry_runId e = rid"
    using sub run_entries_run_id by blast
  from suf have "subseq ?r (run_entries rid file)" by (rule suffix_imp_subseq)
  then have "subseq (map EntryLine ?r) (map EntryLine (run_entries rid file))"
    by (rule subseq_map)
  then have order: "subseq (map EntryLine ?r) file"
    using run_entries_subseq by (rule subseq_order.order_trans)
  have len: "io_ok \<longrightarrow> length ?r = min (length (run_entries rid file)) (nat ?k)"
  proof
    assume io_ok
    with r have "?r = slice_last (run_entries rid file) ?k" by simp
    then show "length ?r = min (length (run_entries rid file)) (nat ?k)"
      by (simp only: slice_last_length[OF k])
  qed
  have bound: "int (length ?r) \<le> ?k"
  proof (cases io_ok)
    case True
    with len have "length ?r \<le> nat ?k" by simp
    with k show ?thesis by linarith
  next
    case False
    then show ?thesis unfolding r by simp
  qed
  have "readRecent NoopStore io_ok file limit = []" by (simp add: readRecent_def)
  with ids suf order bound len show ?thesis by (intro conjI)
qed

theorem read_recent_entries_witness:
  "readRecent (FileStore ''/tmp/run-1.jsonl'' ''run-1'') True
       [EntryLine \<lparr>entryId = ''e1'', entry_runId = ''run-1'', entry_createdAtMs = 1,
          kind = Observation ''task-1'' ''worker'' Success ''summary-1''\<rparr>,
        SkippedLine ''not json'',
        EntryLine \<lparr>entryId = ''e2'', entry_runId = ''run-1'', entry_createdAtMs = 2,
          kind = Observation ''task-2'' ''worker'' Success ''summary-2''\<rparr>,
        EntryLine \<lparr>entryId = ''e3'', entry_runId = ''run-2'', entry_createdAtMs = 3,
          kind = Observation ''task-3'' ''worker'' Success ''summary-3''\<rparr>,
        EntryLine \<lparr>entryId = ''e4'', entry_runId = ''run-1'', entry_createdAtMs = 4,
          kind = Observation ''task-4'' ''worker'' Success ''summary-4''\<rparr>,
        EntryLine \<lparr>entryId = ''e5'', entry_runId = ''run-1'', entry_createdAtMs = 5,
          kind = Observation ''task-5'' ''worker'' Success ''summary-5''\<rparr>] 3
     = [\<lparr>entryId = ''e2'', entry_runId = ''run-1'', entry_createdAtMs = 2,
          kind = Observation ''task-2'' ''worker'' Success ''summary-2''\<rparr>,
        \<lparr>entryId = ''e4'', entry_runId = ''run-1'', entry_createdAtMs = 4,
          kind = Observation ''task-4'' ''worker'' Success ''summary-4''\<rparr>,
        \<lparr>entryId = ''e5'', entry_runId = ''run-1'', entry_createdAtMs = 5,
          kind = Observation ''task-5'' ''worker'' Success ''summary-5''\<rparr>]
   \<and> int (length (readRecent (FileStore ''/tmp/run-1.jsonl'' ''run-1'') True
       [EntryLine \<lparr>entryId = ''e1'', entry_runId = ''run-1'', entry_createdAtMs = 1,
          kind = Observation ''task-1'' ''worker'' Success ''summary-1''\<rparr>,
        SkippedLine ''not json'',
        EntryLine \<lparr>entryId = ''e2'', entry_runId = ''run-1'', entry_createdAtMs = 2,
          kind = Observation ''task-2'' ''worker'' Success ''summary-2''\<rparr>,
        EntryLine \<lparr>entryId = ''e3'', entry_runId = ''run-2'', entry_createdAtMs = 3,
          kind = Observation ''task-3'' ''worker'' Success ''summary-3''\<rparr>,
        EntryLine \<lparr>entryId = ''e4'', entry_runId = ''run-1'', entry_createdAtMs = 4,
          kind = Observation ''task-4'' ''worker'' Success ''summary-4''\<rparr>,
        EntryLine \<lparr>entryId = ''e5'', entry_runId = ''run-1'', entry_createdAtMs = 5,
          kind = Observation ''task-5'' ''worker'' Success ''summary-5''\<rparr>] 3)) \<le> max 1 (min 100 3)
   \<and> readRecent (FileStore ''/tmp/run-1.jsonl'' ''run-1'') True
       [EntryLine \<lparr>entryId = ''e1'', entry_runId = ''run-1'', entry_createdAtMs = 1,
          kind = Observation ''task-1'' ''worker'' Success ''summary-1''\<rparr>,
        SkippedLine ''not json'',
        EntryLine \<lparr>entryId = ''e2'', entry_runId = ''run-1'', entry_createdAtMs = 2,
          kind = Observation ''task-2'' ''worker'' Success ''summary-2''\<rparr>,
        EntryLine \<lparr>entryId = ''e3'', entry_runId = ''run-2'', entry_createdAtMs = 3,
          kind = Observation ''task-3'' ''worker'' Success ''summary-3''\<rparr>,
        EntryLine \<lparr>entryId = ''e4'', entry_runId = ''run-1'', entry_createdAtMs = 4,
          kind = Observation ''task-4'' ''worker'' Success ''summary-4''\<rparr>,
        EntryLine \<lparr>entryId = ''e5'', entry_runId = ''run-1'', entry_createdAtMs = 5,
          kind = Observation ''task-5'' ''worker'' Success ''summary-5''\<rparr>] 0
     = [\<lparr>entryId = ''e5'', entry_runId = ''run-1'', entry_createdAtMs = 5,
          kind = Observation ''task-5'' ''worker'' Success ''summary-5''\<rparr>]"
proof -
  let ?led = "[EntryLine \<lparr>entryId = ''e1'', entry_runId = ''run-1'', entry_createdAtMs = 1,
          kind = Observation ''task-1'' ''worker'' Success ''summary-1''\<rparr>,
        SkippedLine ''not json'',
        EntryLine \<lparr>entryId = ''e2'', entry_runId = ''run-1'', entry_createdAtMs = 2,
          kind = Observation ''task-2'' ''worker'' Success ''summary-2''\<rparr>,
        EntryLine \<lparr>entryId = ''e3'', entry_runId = ''run-2'', entry_createdAtMs = 3,
          kind = Observation ''task-3'' ''worker'' Success ''summary-3''\<rparr>,
        EntryLine \<lparr>entryId = ''e4'', entry_runId = ''run-1'', entry_createdAtMs = 4,
          kind = Observation ''task-4'' ''worker'' Success ''summary-4''\<rparr>,
        EntryLine \<lparr>entryId = ''e5'', entry_runId = ''run-1'', entry_createdAtMs = 5,
          kind = Observation ''task-5'' ''worker'' Success ''summary-5''\<rparr>]"
  have three: "readRecent (FileStore ''/tmp/run-1.jsonl'' ''run-1'') True ?led 3 = [\<lparr>entryId = ''e2'', entry_runId = ''run-1'', entry_createdAtMs = 2,
          kind = Observation ''task-2'' ''worker'' Success ''summary-2''\<rparr>,
        \<lparr>entryId = ''e4'', entry_runId = ''run-1'', entry_createdAtMs = 4,
          kind = Observation ''task-4'' ''worker'' Success ''summary-4''\<rparr>,
        \<lparr>entryId = ''e5'', entry_runId = ''run-1'', entry_createdAtMs = 5,
          kind = Observation ''task-5'' ''worker'' Success ''summary-5''\<rparr>]"
    by (simp add: readRecent_def slice_last_def)
  have one: "readRecent (FileStore ''/tmp/run-1.jsonl'' ''run-1'') True ?led 0 = [\<lparr>entryId = ''e5'', entry_runId = ''run-1'', entry_createdAtMs = 5,
          kind = Observation ''task-5'' ''worker'' Success ''summary-5''\<rparr>]"
    by (simp add: readRecent_def slice_last_def)
  have "int (length (readRecent (FileStore ''/tmp/run-1.jsonl'' ''run-1'') True ?led 3))
          \<le> max 1 (min 100 3)"
    by (rule read_recent_entries[THEN conjunct2, THEN conjunct2, THEN conjunct2, THEN conjunct1])
  with three one show ?thesis by (intro conjI)
qed

text \<open>
  C4, as the code has it. In mode isolated \<^verbatim>\<open>buildSharedContextPacket\<close> returns the empty
  string and the task handed to the child is the raw task with nothing appended. The
  ledger does receive the dispatch write: \<^verbatim>\<open>prepareDelegation\<close> appends the dispatch
  entry of the delegation, which records the mode, to the file of a file-backed store;
  only a failing write or the no-op store leaves the file as it was.
\<close>

theorem isolated_delegation:
  "buildSharedContextPacket Isolated envelope recent = []
   \<and> snd (snd (prepareDelegation budget sto Isolated lim ext led agentName rawTask
                  parentTaskId runMode)) = rawTask
   \<and> fst (prepareDelegation budget (FileStore path rid) Isolated lim ext led agentName
             rawTask parentTaskId runMode)
       = (if write_ok ext
          then led @ [EntryLine
                 \<lparr>entryId = newEntryId ext, entry_runId = rid, entry_createdAtMs = entryNowMs ext,
                  kind = Dispatch
                    \<lparr>env_runId = runId budget, env_taskId = newTaskId ext,
                     env_parentTaskId = parentTaskId, env_agent = agentName, env_task = rawTask,
                     env_mode = runMode, env_depth = depth budget + 1,
                     env_createdAtMs = envelopeNowMs ext\<rparr>
                    Isolated\<rparr>]
          else led)
   \<and> fst (prepareDelegation budget NoopStore Isolated lim ext led agentName
             rawTask parentTaskId runMode) = led"
proof (intro conjI)
  show packet: "buildSharedContextPacket Isolated envelope recent = []"
    by (simp add: buildSharedContextPacket_def)
  show "snd (snd (prepareDelegation budget sto Isolated lim ext led agentName rawTask
                  parentTaskId runMode)) = rawTask"
    by (simp add: prepareDelegation_def Let_def buildSharedContextPacket_def)
  show "fst (prepareDelegation budget (FileStore path rid) Isolated lim ext led agentName
             rawTask parentTaskId runMode)
       = (if write_ok ext
          then led @ [EntryLine
                 \<lparr>entryId = newEntryId ext, entry_runId = rid, entry_createdAtMs = entryNowMs ext,
                  kind = Dispatch
                    \<lparr>env_runId = runId budget, env_taskId = newTaskId ext,
                     env_parentTaskId = parentTaskId, env_agent = agentName, env_task = rawTask,
                     env_mode = runMode, env_depth = depth budget + 1,
                     env_createdAtMs = envelopeNowMs ext\<rparr>
                    Isolated\<rparr>]
          else led)"
    by (simp add: prepareDelegation_def Let_def appendDispatch_def append_entry_def)
  show "fst (prepareDelegation budget NoopStore Isolated lim ext led agentName
             rawTask parentTaskId runMode) = led"
    by (simp add: prepareDelegation_def Let_def appendDispatch_def)
qed

text \<open>
  The claim as written fails: a delegation in mode isolated, on an empty ledger file that
  can be written, leaves one line in the file.
\<close>

theorem isolated_ledger_counterexample:
  "fst (prepareDelegation
          \<lparr>runId = ''run-1'', depth = 0, maxDepth = 2, rootStartedAtMs = 1000,
            deadlineAtMs = 61000, remainingTokens = 4, fingerprints = [],
            canSpawnChildren = True\<rparr>
          (FileStore ''/tmp/run-1.jsonl'' ''run-1'') Isolated 12
          \<lparr>newTaskId = ''t1'', newEntryId = ''e1'', envelopeNowMs = 2000, entryNowMs = 2001,
            write_ok = True, read_ok = True\<rparr>
          [] ''scout'' ''List files'' (Some ''root'') ModeSingle)
     = [EntryLine
          \<lparr>entryId = ''e1'', entry_runId = ''run-1'', entry_createdAtMs = 2001,
           kind = Dispatch
             \<lparr>env_runId = ''run-1'', env_taskId = ''t1'', env_parentTaskId = Some ''root'',
              env_agent = ''scout'', env_task = ''List files'', env_mode = ModeSingle,
              env_depth = 1, env_createdAtMs = 2000\<rparr>
             Isolated\<rparr>]
   \<and> fst (prepareDelegation
          \<lparr>runId = ''run-1'', depth = 0, maxDepth = 2, rootStartedAtMs = 1000,
            deadlineAtMs = 61000, remainingTokens = 4, fingerprints = [],
            canSpawnChildren = True\<rparr>
          (FileStore ''/tmp/run-1.jsonl'' ''run-1'') Isolated 12
          \<lparr>newTaskId = ''t1'', newEntryId = ''e1'', envelopeNowMs = 2000, entryNowMs = 2001,
            write_ok = True, read_ok = True\<rparr>
          [] ''scout'' ''List files'' (Some ''root'') ModeSingle)
     \<noteq> []"
  by (simp add: prepareDelegation_def Let_def appendDispatch_def append_entry_def)

theorem isolated_delegation_witness:
  "snd (snd (prepareDelegation
          \<lparr>runId = ''run-1'', depth = 0, maxDepth = 2, rootStartedAtMs = 1000,
            deadlineAtMs = 61000, remainingTokens = 4, fingerprints = [],
            canSpawnChildren = True\<rparr>
          (FileStore ''/tmp/run-1.jsonl'' ''run-1'') Isolated 12
          \<lparr>newTaskId = ''t1'', newEntryId = ''e1'', envelopeNowMs = 2000, entryNowMs = 2001,
            write_ok = True, read_ok = True\<rparr>
          [] ''scout'' ''List files'' (Some ''root'') ModeSingle))
     = ''List files''"
  by (rule isolated_delegation[THEN conjunct2, THEN conjunct1])

section \<open>Chain budget\<close>








section \<open>Phase smoke gate\<close>

lemma applySmokeResults_fields:
  "smokeResults (applySmokeResults g rs) = rs"
  "smokeMaxRetries (applySmokeResults g rs) = smokeMaxRetries g"
  by (simp_all add: applySmokeResults_def Let_def)

lemma runSmokeRetryLoop_passed:
  assumes "runSmokeRetryLoop W retry failed g = (g', passed, f)"
    and "retry \<le> smokeMaxRetries g \<or> failedResult (smokeResults g) \<noteq> None"
  shows "passed \<longleftrightarrow> failedResult (smokeResults g') = None"
  using assms
proof (induction W retry failed g rule: runSmokeRetryLoop.induct)
  case (1 W retry failed g)
  show ?case
  proof (cases "retry \<le> smokeMaxRetries g")
    case False
    with "1.prems" show ?thesis by auto
  next
    case True
    let ?g1 = "g\<lparr>smokeAttempts := smokeAttempts g + 1\<rparr>"
    let ?rs = "runSmokeCommands (runSmokeCommand W (smokeAttempts ?g1)) (smokeCommands ?g1)"
    let ?g2 = "applySmokeResults ?g1 ?rs"
    show ?thesis
    proof (cases "failedResult ?rs")
      case None
      with True "1.prems"(1) have "g' = ?g2" and "passed" by (simp_all add: Let_def)
      with None show ?thesis by (simp add: applySmokeResults_fields)
    next
      case (Some f')
      with True "1.prems"(1)
      have rec: "runSmokeRetryLoop W (retry + 1) (Some f') ?g2 = (g', passed, f)"
        by (simp add: Let_def)
      from Some have "failedResult (smokeResults ?g2) \<noteq> None"
        by (simp add: applySmokeResults_fields)
      then have "retry + 1 \<le> smokeMaxRetries ?g2 \<or> failedResult (smokeResults ?g2) \<noteq> None" ..
      from "1.IH"[OF True refl refl refl Some rec this] show ?thesis .
    qed
  qed
qed

lemma runSmokeWithRetries_passed:
  assumes "runSmokeWithRetries W g = (g', passed, f)" and "0 \<le> smokeMaxRetries g"
  shows "passed \<longleftrightarrow> failedResult (smokeResults g') = None"
  using assms runSmokeRetryLoop_passed[of W 0 None g g' passed f]
  by (simp add: runSmokeWithRetries_def del: runSmokeRetryLoop.simps)

lemma runSmokeWithRetries_keeps:
  assumes "runSmokeWithRetries W g = (g', passed, f)"
  shows "smokeMaxFixAttempts g' = smokeMaxFixAttempts g"
    and "smokeFixAttempts g' = smokeFixAttempts g"
    and "smokeFixHistory g' = smokeFixHistory g"
    and "smokeMaxRetries g' = smokeMaxRetries g"
    and "smokeCommands g' = smokeCommands g"
    and "requireSmoke g' = requireSmoke g"
  using assms runSmokeRetryLoop_keeps[of W 0 None g g' passed f]
  by (simp_all add: runSmokeWithRetries_def del: runSmokeRetryLoop.simps)

lemma recordSmokeFixAttempt_fields:
  "smokeFixAttempts (recordSmokeFixAttempt g e) = max (smokeFixAttempts g) (attempt e)"
  "smokeFixHistory (recordSmokeFixAttempt g e) = smokeFixHistory g @ [e]"
  "smokeMaxFixAttempts (recordSmokeFixAttempt g e) = smokeMaxFixAttempts g"
  "smokeMaxRetries (recordSmokeFixAttempt g e) = smokeMaxRetries g"
  "smokeCommands (recordSmokeFixAttempt g e) = smokeCommands g"
  "requireSmoke (recordSmokeFixAttempt g e) = requireSmoke g"
  "smokeResults (recordSmokeFixAttempt g e) = smokeResults g"
  by (simp_all add: recordSmokeFixAttempt_def)

lemma fix_record_attempt: "attempt (fix_record k a oc txt) = k"
  by (simp add: fix_record_def)

text \<open>What one turn of the fix loop does to the gate state.\<close>

lemma fixStep_effect:
  assumes step: "fixStep E W m a f k st = (st', out)"
    and retries: "0 \<le> smokeMaxRetries (st_gate st)"
    and failing: "failedResult (smokeResults (st_gate st)) \<noteq> None"
  shows "smokeFixAttempts (st_gate st') = max (smokeFixAttempts (st_gate st)) k
       \<and> map attempt (smokeFixHistory (st_gate st')) = map attempt (smokeFixHistory (st_gate st)) @ [k]
       \<and> smokeMaxFixAttempts (st_gate st') = smokeMaxFixAttempts (st_gate st)
       \<and> smokeMaxRetries (st_gate st') = smokeMaxRetries (st_gate st)
       \<and> smokeCommands (st_gate st') = smokeCommands (st_gate st)
       \<and> requireSmoke (st_gate st') = requireSmoke (st_gate st)
       \<and> length (st_spawned st') \<le> Suc (length (st_spawned st))
       \<and> (case out of
            Some r \<Rightarrow> ok r \<longleftrightarrow> failedResult (smokeResults (st_gate st')) = None
          | None \<Rightarrow> failedResult (smokeResults (st_gate st')) \<noteq> None)"
proof (cases "remainingTokens (st_budget st) \<le> 0")
  case True
  with step failing show ?thesis
    by (auto simp: fixStep_def Let_def recordSmokeFixAttempt_fields fix_record_attempt)
next
  case False
  let ?failed = "case failedResult (smokeResults (st_gate st)) of Some f' \<Rightarrow> Some f' | None \<Rightarrow> f"
  let ?task = "remediationTask (st_gate st) ?failed k"
  obtain file1 taskId executionTask where prep:
    "prepareDelegation (st_budget st) (store E) (contextMode E) (contextLimit E)
       (delegation_ext W (FixAttempt k)) (st_file st) (name a) ?task (Some (rootTaskId E)) m
     = (file1, taskId, executionTask)"
    by (metis prod_cases3)
  obtain budget' r where res: "reserveChildBudget (st_budget st) (name a) ?task 0 (canNestAgent a)
     = (budget', r)"
    by (cases "reserveChildBudget (st_budget st) (name a) ?task 0 (canNestAgent a)") auto
  show ?thesis
  proof (cases r)
    case (Inl e)
    with step False prep res failing show ?thesis
      by (auto simp: fixStep_def Let_def recordSmokeFixAttempt_fields fix_record_attempt)
  next
    case (Inr fixBudget)
    let ?result = "runSingleAgent W (FixAttempt k) (name a) ?task executionTask fixBudget"
    let ?ext = "observation_ext W (FixAttempt k)"
    let ?st3 = "st\<lparr>st_budget := budget', st_spawned := st_spawned st @ [fixBudget],
                  st_file := appendObservation (store E) (write_ok ?ext) (newEntryId ?ext)
                               (entryNowMs ?ext) file1 taskId (name a)
                               (if resultIsError ?result then Error else Success)
                               (resultSummary ?result)\<rparr>"
    have gate3: "st_gate ?st3 = st_gate st" by simp
    show ?thesis
    proof (cases "resultIsError ?result")
      case True
      with step False prep res Inr failing show ?thesis
        by (auto simp: fixStep_def Let_def recordSmokeFixAttempt_fields fix_record_attempt)
    next
      case ran: False
      obtain g passed pf where smoke: "runSmokeWithRetries W (st_gate st) = (g, passed, pf)"
        by (metis prod_cases3)
      note keeps = runSmokeWithRetries_keeps[OF smoke]
      from runSmokeWithRetries_passed[OF smoke retries]
      have verdict: "passed \<longleftrightarrow> failedResult (smokeResults g) = None" .
      show ?thesis
      proof (cases passed)
        case True
        with step False prep res Inr ran smoke
        have "st_gate st' = recordSmokeFixAttempt g
                (fix_record k a Success ''fix applied and smoke gate passed'')"
          and "length (st_spawned st') = Suc (length (st_spawned st))"
          and "\<exists>r. out = Some r \<and> ok r"
          by (auto simp: fixStep_def Let_def)
        with keeps verdict True show ?thesis
          by (auto simp: recordSmokeFixAttempt_fields fix_record_attempt)
      next
        case False
        with step \<open>\<not> remainingTokens (st_budget st) \<le> 0\<close> prep res Inr ran smoke
        have "\<exists>txt. st_gate st' = recordSmokeFixAttempt g (fix_record k a Error txt)"
          and "length (st_spawned st') = Suc (length (st_spawned st))"
          and "out = None"
          by (auto simp: fixStep_def Let_def)
        with keeps verdict False show ?thesis
          by (auto simp: recordSmokeFixAttempt_fields fix_record_attempt)
      qed
    qed
  qed
qed


lemma fixLoop_invariant:
  assumes "fixLoop E W m a f k st = (st', res)"
    and "smokeFixAttempts (st_gate st) = k - 1"
    and "map attempt (smokeFixHistory (st_gate st)) = [1..k - 1]"
    and "1 \<le> k"
    and "k - 1 \<le> smokeMaxFixAttempts (st_gate st)"
    and "0 \<le> smokeMaxRetries (st_gate st)"
    and "failedResult (smokeResults (st_gate st)) \<noteq> None"
  shows "smokeFixAttempts (st_gate st') \<le> smokeMaxFixAttempts (st_gate st')
       \<and> map attempt (smokeFixHistory (st_gate st')) = [1..smokeFixAttempts (st_gate st')]
       \<and> int (length (st_spawned st')) \<le> int (length (st_spawned st))
                                             + (smokeFixAttempts (st_gate st') - (k - 1))
       \<and> smokeCommands (st_gate st') = smokeCommands (st_gate st)
       \<and> requireSmoke (st_gate st') = requireSmoke (st_gate st)
       \<and> (ok res \<longleftrightarrow> failedResult (smokeResults (st_gate st')) = None)"
  using assms
proof (induction E W m a f k st arbitrary: st' res rule: fixLoop.induct)
  case (1 E W m a f k st)
  show ?case
  proof (cases "k \<le> smokeMaxFixAttempts (st_gate st)")
    case False
    with "1.prems"(1) have "st' = st" and "\<not> ok res" by auto
    with "1.prems" show ?thesis by simp
  next
    case True
    obtain st1 out where step: "fixStep E W m a f k st = (st1, out)"
      by (cases "fixStep E W m a f k st") auto
    note eff = fixStep_effect[OF step "1.prems"(6,7)]
    from eff "1.prems"(2,4) have attempts1: "smokeFixAttempts (st_gate st1) = k" by simp
    from eff "1.prems"(3,4) have history1: "map attempt (smokeFixHistory (st_gate st1)) = [1..k]"
      by (simp add: upto_rec2)
    from eff have max1: "smokeMaxFixAttempts (st_gate st1) = smokeMaxFixAttempts (st_gate st)"
      and retries1: "smokeMaxRetries (st_gate st1) = smokeMaxRetries (st_gate st)"
      and commands1: "smokeCommands (st_gate st1) = smokeCommands (st_gate st)"
      and require1: "requireSmoke (st_gate st1) = requireSmoke (st_gate st)"
      and spawned1: "length (st_spawned st1) \<le> Suc (length (st_spawned st))"
      by simp_all
    show ?thesis
    proof (cases out)
      case (Some r)
      with True step "1.prems"(1) have "st' = st1" and "res = r" by simp_all
      moreover from eff Some have "ok r \<longleftrightarrow> failedResult (smokeResults (st_gate st1)) = None"
        by simp
      ultimately show ?thesis
        using attempts1 history1 max1 commands1 require1 spawned1 True by simp
    next
      case None
      with True step "1.prems"(1)
      have rest: "fixLoop E W m a f (k + 1) st1 = (st', res)" by simp
      from eff None have failing1: "failedResult (smokeResults (st_gate st1)) \<noteq> None" by simp
      have "smokeFixAttempts (st_gate st') \<le> smokeMaxFixAttempts (st_gate st')
          \<and> map attempt (smokeFixHistory (st_gate st')) = [1..smokeFixAttempts (st_gate st')]
          \<and> int (length (st_spawned st')) \<le> int (length (st_spawned st1))
                                                + (smokeFixAttempts (st_gate st') - (k + 1 - 1))
          \<and> smokeCommands (st_gate st') = smokeCommands (st_gate st1)
          \<and> requireSmoke (st_gate st') = requireSmoke (st_gate st1)
          \<and> (ok res \<longleftrightarrow> failedResult (smokeResults (st_gate st')) = None)"
      proof (rule "1.IH"[OF True step[symmetric] None rest])
        show "smokeFixAttempts (st_gate st1) = k + 1 - 1" using attempts1 by simp
        show "map attempt (smokeFixHistory (st_gate st1)) = [1..k + 1 - 1]" using history1 by simp
        show "1 \<le> k + 1" using "1.prems"(4) by simp
        show "k + 1 - 1 \<le> smokeMaxFixAttempts (st_gate st1)" using True max1 by simp
        show "0 \<le> smokeMaxRetries (st_gate st1)" using "1.prems"(6) retries1 by simp
        show "failedResult (smokeResults (st_gate st1)) \<noteq> None" by (rule failing1)
      qed
      with commands1 require1 spawned1 show ?thesis by simp
    qed
  qed
qed

lemma createPhaseGateState_fields:
  "smokeFixAttempts (createPhaseGateState init) = 0"
  "smokeFixHistory (createPhaseGateState init) = []"
  "0 \<le> smokeMaxFixAttempts (createPhaseGateState init)"
  "0 \<le> smokeMaxRetries (createPhaseGateState init)"
  by (simp_all add: createPhaseGateState_def Let_def)

lemma afterSmokeGate_error: "\<not> ok g \<Longrightarrow> isError (afterSmokeGate g out)"
  by (simp add: afterSmokeGate_def)

text \<open>
  C8. The gate state of a run has \<open>smokeFixAttempts \<le> smokeMaxFixAttempts\<close> when it is
  created and when the phase smoke gate returns; on return the fix history holds exactly the attempts
  \<open>1, ..., smokeFixAttempts\<close>, one record each, and the gate ran at most that many fix
  children. If smoke is required and configured and the last smoke run did not pass
  (so also when all attempts are used up), the gate is not \<open>ok\<close> and the tool call returns
  an error result.
\<close>

theorem smoke_gate_bounded:
  assumes fresh: "st_gate st = createPhaseGateState init"
    and gate: "runPhaseSmokeGate E W currentMode completedResults st = (st', res)"
  shows "smokeFixAttempts (st_gate st) \<le> smokeMaxFixAttempts (st_gate st)
       \<and> smokeFixAttempts (st_gate st') \<le> smokeMaxFixAttempts (st_gate st')
       \<and> map attempt (smokeFixHistory (st_gate st')) = [1..smokeFixAttempts (st_gate st')]
       \<and> int (length (st_spawned st')) \<le> int (length (st_spawned st)) + smokeFixAttempts (st_gate st')
       \<and> (requireSmoke (st_gate st') \<and> smokeCommands (st_gate st') \<noteq> []
            \<and> failedResult (smokeResults (st_gate st')) \<noteq> None
          \<longrightarrow> \<not> ok res \<and> isError (afterSmokeGate res finalOutput))"
proof -
  let ?g0 = "st_gate st"
  note g0 = createPhaseGateState_fields[of init, folded fresh]
  have goal_when: "\<And>g. st_gate st' = g \<Longrightarrow> smokeFixAttempts g = 0 \<Longrightarrow> smokeFixHistory g = []
        \<Longrightarrow> 0 \<le> smokeMaxFixAttempts g \<Longrightarrow> st_spawned st' = st_spawned st
        \<Longrightarrow> (requireSmoke g \<and> smokeCommands g \<noteq> [] \<and> failedResult (smokeResults g) \<noteq> None
               \<longrightarrow> \<not> ok res)
        \<Longrightarrow> ?thesis"
    using g0 by (auto simp: afterSmokeGate_error)
  show ?thesis
  proof (cases "length (smokeCommands ?g0) = 0")
    case True
    with gate have "st_gate st' = markSmokeSkipped ?g0" and "st_spawned st' = st_spawned st"
      by (auto simp: runPhaseSmokeGate_def)
    with g0 True show ?thesis
      by (intro goal_when[of "markSmokeSkipped ?g0"]) (simp_all add: markSmokeSkipped_def)
  next
    case False
    obtain g passed initialFailed where smoke: "runSmokeWithRetries W ?g0 = (g, passed, initialFailed)"
      by (metis prod_cases3)
    note keeps = runSmokeWithRetries_keeps[OF smoke]
    from runSmokeWithRetries_passed[OF smoke g0(4)]
    have verdict: "passed \<longleftrightarrow> failedResult (smokeResults g) = None" .
    let ?st1 = "st\<lparr>st_gate := g\<rparr>"
    have direct: "st' = ?st1 \<Longrightarrow> (requireSmoke g \<and> failedResult (smokeResults g) \<noteq> None \<longrightarrow> \<not> ok res)
                    \<Longrightarrow> ?thesis" 
      using keeps g0 by (intro goal_when[of g]) simp_all
    show ?thesis
    proof (cases passed)
      case True
      with gate False smoke have "st' = ?st1"
        by (auto simp: runPhaseSmokeGate_def Let_def split: if_splits)
      with True verdict show ?thesis by (intro direct) simp_all
    next
      case failed: False
      show ?thesis
      proof (cases "requireSmoke g")
        case False
        with gate \<open>length (smokeCommands ?g0) \<noteq> 0\<close> smoke failed have "st' = ?st1"
          by (auto simp: runPhaseSmokeGate_def Let_def split: option.splits)
        with False show ?thesis by (intro direct) simp_all
      next
        case True
        show ?thesis
        proof (cases "getFixAgent E currentMode completedResults")
          case None
          with gate \<open>length (smokeCommands ?g0) \<noteq> 0\<close> smoke failed True
          have "st' = ?st1" and "\<not> ok res"
            by (auto simp: runPhaseSmokeGate_def Let_def)
          then show ?thesis by (intro direct) simp_all
        next
          case (Some fixAgent)
          show ?thesis
          proof (cases "smokeMaxFixAttempts g = 0")
            case zero: True
            with gate \<open>length (smokeCommands ?g0) \<noteq> 0\<close> smoke failed True Some
            have "st' = ?st1" and "\<not> ok res"
              by (auto simp: runPhaseSmokeGate_def Let_def)
            then show ?thesis by (intro direct) simp_all
          next
            case False
            with gate \<open>length (smokeCommands ?g0) \<noteq> 0\<close> smoke failed True Some
            have loop: "fixLoop E W currentMode fixAgent initialFailed 1 ?st1 = (st', res)"
              by (simp add: runPhaseSmokeGate_def Let_def del: fixLoop.simps)
            have "smokeFixAttempts (st_gate st') \<le> smokeMaxFixAttempts (st_gate st')
                \<and> map attempt (smokeFixHistory (st_gate st')) = [1..smokeFixAttempts (st_gate st')]
                \<and> int (length (st_spawned st')) \<le> int (length (st_spawned ?st1))
                                                      + (smokeFixAttempts (st_gate st') - (1 - 1))
                \<and> smokeCommands (st_gate st') = smokeCommands (st_gate ?st1)
                \<and> requireSmoke (st_gate st') = requireSmoke (st_gate ?st1)
                \<and> (ok res \<longleftrightarrow> failedResult (smokeResults (st_gate st')) = None)"
            proof (rule fixLoop_invariant[OF loop])
              show "smokeFixAttempts (st_gate ?st1) = 1 - 1" using keeps g0 by simp
              show "map attempt (smokeFixHistory (st_gate ?st1)) = [1..1 - 1]" using keeps g0 by simp
              show "(1::int) \<le> 1" by simp
              show "1 - 1 \<le> smokeMaxFixAttempts (st_gate ?st1)" using keeps g0 by simp
              show "0 \<le> smokeMaxRetries (st_gate ?st1)" using keeps g0 by simp
              show "failedResult (smokeResults (st_gate ?st1)) \<noteq> None" using failed verdict by simp
            qed
            then show ?thesis using g0 by (auto simp: afterSmokeGate_error)
          qed
        qed
      qed
    qed
  qed
qed

theorem smoke_gate_bounded_witness:
  "smokeFixAttempts (st_gate (fst (runPhaseSmokeGate demo_env (demo_world 100) ModeChain []
                                     (demo_state 5 demo_init)))) = 2
   \<and> smokeMaxFixAttempts (st_gate (fst (runPhaseSmokeGate demo_env (demo_world 100) ModeChain []
                                          (demo_state 5 demo_init)))) = 2
   \<and> \<not> ok (snd (runPhaseSmokeGate demo_env (demo_world 100) ModeChain [] (demo_state 5 demo_init)))
   \<and> isError (afterSmokeGate
                (snd (runPhaseSmokeGate demo_env (demo_world 100) ModeChain []
                        (demo_state 5 demo_init)))
                ''done'')"
proof -
  let ?st = "demo_state 5 demo_init"
  let ?R = "runPhaseSmokeGate demo_env (demo_world 100) ModeChain [] ?st"
  have fresh: "st_gate ?st = createPhaseGateState demo_init"
    by (simp add: demo_state_def)
  have gate: "?R = (fst ?R, snd ?R)"
    by simp
  have used: "smokeFixAttempts (st_gate (fst ?R)) = 2 \<and> smokeMaxFixAttempts (st_gate (fst ?R)) = 2"
    by code_simp
  have no_pass: "requireSmoke (st_gate (fst ?R)) \<and> smokeCommands (st_gate (fst ?R)) \<noteq> []
                   \<and> failedResult (smokeResults (st_gate (fst ?R))) \<noteq> None"
    by code_simp
  from smoke_gate_bounded[OF fresh gate, THEN conjunct2, THEN conjunct2, THEN conjunct2,
         THEN conjunct2, THEN mp, OF no_pass, of "''done''"]
  have "\<not> ok (snd ?R) \<and> isError (afterSmokeGate (snd ?R) ''done'')" .
  with used show ?thesis by simp
qed

end
